theory Spec2Isabelle
  imports Complex_Main "HOL-Library.AList" "HOL-Library.Sublist"
begin

section \<open>JavaScript values, objects and maps\<close>

text \<open>
  The server is TypeScript running on a JavaScript engine. The values that flow through
  the storage layer and the route handlers are JSON-like values and \<open>Date\<close> objects.
  A \<open>Date\<close> is represented by its time value (milliseconds since the epoch), a number
  by a real. Numbers that identify records are integers: they come from the counters of
  the store or from \<open>parseInt\<close>; \<open>jsnum\<close> is such a number, with \<open>NaN\<close> as the one
  non-integer result \<open>parseInt\<close> can give. Counters stay far below \<open>2^53\<close> (every create
  stores a record in memory), so the integers are exact.
\<close>

datatype jsval =
    JNull
  | JBool bool
  | JNum real
  | JStr string
  | JDate int
  | JArr "jsval list"
  | JObj "(string \<times> jsval) list"

type_synonym obj = "(string \<times> jsval) list"

datatype jsnum = NaN | Num int

text \<open>
  An object is the list of its properties in creation order, each key once. An object
  literal \<open>{ ...a, ...b, k: v }\<close> defines its properties from left to right on a fresh
  object: a later definition of a key that is already there replaces the value and keeps
  the position. \<open>object_of\<close> takes the property definitions in source order, a spread
  contributing the properties of its object.
\<close>

definition object_of :: "(string \<times> jsval) list \<Rightarrow> obj" where
  "object_of props = fold (\<lambda>(k, v). AList.update k v) props []"

text \<open>
  Reading a property: \<open>None\<close> stands for \<open>undefined\<close>. Where a list of property
  definitions names a key twice (as a literal or a JSON text may), the last one counts.
\<close>

definition fld :: "obj \<Rightarrow> string \<Rightarrow> jsval option" where
  "fld ob k = map_of (rev ob) k"

text \<open>
  The time value of a property that holds a \<open>Date\<close>. The entity types make
  \<open>scheduledDate\<close> and \<open>timestamp\<close> Dates; nothing is said about other values.
\<close>

definition getTime :: "jsval option \<Rightarrow> int" where
  "getTime v = (case v of Some (JDate t) \<Rightarrow> t | _ \<Rightarrow> undefined)"

text \<open>Truthiness of a value read from a property (\<open>!x\<close>, \<open>if (x)\<close>).\<close>

fun truthy :: "jsval option \<Rightarrow> bool" where
  "truthy None = False"
| "truthy (Some JNull) = False"
| "truthy (Some (JBool b)) = b"
| "truthy (Some (JNum x)) = (x \<noteq> 0)"
| "truthy (Some (JStr s)) = (s \<noteq> [])"
| "truthy (Some (JDate t)) = True"
| "truthy (Some (JArr xs)) = True"
| "truthy (Some (JObj kvs)) = True"

text \<open>Truthiness of a number or \<open>undefined\<close>, as in \<open>if (regionId)\<close>.\<close>

fun truthy_num :: "jsnum option \<Rightarrow> bool" where
  "truthy_num None = False"
| "truthy_num (Some NaN) = False"
| "truthy_num (Some (Num i)) = (i \<noteq> 0)"

text \<open>
  \<open>x === n\<close> for a property value \<open>x\<close> and a number \<open>n\<close>: strict equality never
  converts, and \<open>NaN\<close> equals nothing.
\<close>

fun strict_eq_num :: "jsval option \<Rightarrow> jsnum \<Rightarrow> bool" where
  "strict_eq_num (Some (JNum x)) (Num i) = (x = of_int i)"
| "strict_eq_num _ _ = False"

text \<open>
  A \<open>Map<number, T>\<close> keeps its entries in insertion order; \<open>set\<close> on a key that is
  present replaces the value in place, \<open>delete\<close> reports whether the key was present,
  and keys are compared by SameValueZero, under which \<open>NaN\<close> is a key like any other.
\<close>

type_synonym 'v jsmap = "(jsnum \<times> 'v) list"

definition map_get :: "'v jsmap \<Rightarrow> jsnum \<Rightarrow> 'v option" where
  "map_get m k = map_of m k"

definition map_set :: "jsnum \<Rightarrow> 'v \<Rightarrow> 'v jsmap \<Rightarrow> 'v jsmap" where
  "map_set k v m = AList.update k v m"

definition map_has :: "'v jsmap \<Rightarrow> jsnum \<Rightarrow> bool" where
  "map_has m k = (k \<in> set (map fst m))"

definition map_delete :: "jsnum \<Rightarrow> 'v jsmap \<Rightarrow> bool \<times> 'v jsmap" where
  "map_delete k m = (map_has m k, AList.delete k m)"

definition map_values :: "'v jsmap \<Rightarrow> 'v list" where
  "map_values m = map snd m"

text \<open>
  \<open>xs.slice(0, n)\<close> for a number \<open>n\<close>: a negative end counts from the end of the
  array, and \<open>NaN\<close> is taken as 0.
\<close>

fun slice0 :: "jsnum \<Rightarrow> 'a list \<Rightarrow> 'a list" where
  "slice0 NaN xs = []"
| "slice0 (Num n) xs =
     (if n < 0 then take (nat (max (int (length xs) + n) 0)) xs else take (nat n) xs)"

subsection \<open>parseInt\<close>

text \<open>
  \<open>parseInt(s)\<close> without a radix: leading white space is skipped, a sign is read, a
  prefix \<open>0x\<close> or \<open>0X\<close> selects radix 16, and the longest run of digits of the radix
  is the value; no digit gives \<open>NaN\<close>. Strings are byte strings here, so the white space
  is the ASCII white space.
\<close>

definition is_ws :: "char \<Rightarrow> bool" where
  "is_ws c = (c \<in> set [CHR '' '', CHR 0x09, CHR 0x0A, CHR 0x0B, CHR 0x0C, CHR 0x0D])"

definition digit_val :: "char \<Rightarrow> nat option" where
  "digit_val c =
     (let n = of_char c :: nat in
      if 48 \<le> n \<and> n \<le> 57 then Some (n - 48)
      else if 97 \<le> n \<and> n \<le> 122 then Some (n - 87)
      else if 65 \<le> n \<and> n \<le> 90 then Some (n - 55)
      else None)"

definition is_digit :: "nat \<Rightarrow> char \<Rightarrow> bool" where
  "is_digit radix c = (case digit_val c of None \<Rightarrow> False | Some d \<Rightarrow> d < radix)"

definition digits_value :: "nat \<Rightarrow> string \<Rightarrow> nat" where
  "digits_value radix ds = foldl (\<lambda>a c. a * radix + the (digit_val c)) 0 ds"

definition parseInt :: "string \<Rightarrow> jsnum" where
  "parseInt input =
     (let s = dropWhile is_ws input;
          neg = (s \<noteq> [] \<and> hd s = CHR ''-'');
          s1 = (if s \<noteq> [] \<and> (hd s = CHR ''+'' \<or> hd s = CHR ''-'') then tl s else s);
          hex = (length s1 \<ge> 2 \<and> s1 ! 0 = CHR ''0'' \<and> (s1 ! 1 = CHR ''x'' \<or> s1 ! 1 = CHR ''X''));
          radix = (if hex then 16 else 10);
          s2 = (if hex then drop 2 s1 else s1);
          ds = takeWhile (is_digit radix) s2
      in if ds = [] then NaN
         else Num ((if neg then - 1 else 1) * int (digits_value radix ds)))"

section \<open>Schema and validation (shared/schema.ts)\<close>

text \<open>
  Each table lists its columns under their property names. A column records what the
  insert schema depends on: its data type, whether it is \<open>notNull\<close> and whether it has
  a default. \<open>serial\<close> columns are not null and have a default.
\<close>

datatype coltype = PgSerial | PgText | PgInteger | PgReal | PgBoolean | PgTimestamp | PgJsonb

record column =
  ctype :: coltype
  notNull :: bool
  hasDefault :: bool

type_synonym table = "(string \<times> column) list"

definition column_of :: "coltype \<Rightarrow> column" where
  "column_of t = \<lparr>ctype = t, notNull = (t = PgSerial), hasDefault = (t = PgSerial)\<rparr>"

definition with_notNull :: "column \<Rightarrow> column" where
  "with_notNull c = c\<lparr>notNull := True\<rparr>"

definition with_default :: "column \<Rightarrow> column" where
  "with_default c = c\<lparr>hasDefault := True\<rparr>"

definition primaryKey :: "column \<Rightarrow> column" where
  "primaryKey c = c\<lparr>notNull := True\<rparr>"

definition unique :: "column \<Rightarrow> column" where
  "unique c = c"

definition users_table :: table where
  "users_table =
    [(''id'', primaryKey (column_of PgSerial)),
     (''username'', unique (with_notNull (column_of PgText))),
     (''password'', with_notNull (column_of PgText)),
     (''fullName'', with_notNull (column_of PgText)),
     (''email'', with_notNull (column_of PgText)),
     (''role'', with_default (with_notNull (column_of PgText))),
     (''profileImage'', column_of PgText)]"

definition regions_table :: table where
  "regions_table =
    [(''id'', primaryKey (column_of PgSerial)),
     (''name'', with_notNull (column_of PgText)),
     (''description'', column_of PgText),
     (''coordinates'', with_notNull (column_of PgJsonb))]"

definition locations_table :: table where
  "locations_table =
    [(''id'', primaryKey (column_of PgSerial)),
     (''regionId'', with_notNull (column_of PgInteger)),
     (''name'', with_notNull (column_of PgText)),
     (''status'', with_default (with_notNull (column_of PgText))),
     (''coordinates'', with_notNull (column_of PgJsonb)),
     (''lastUpdated'', with_default (with_notNull (column_of PgTimestamp)))]"

definition inventory_table :: table where
  "inventory_table =
    [(''id'', primaryKey (column_of PgSerial)),
     (''type'', with_notNull (column_of PgText)),
     (''name'', with_notNull (column_of PgText)),
     (''quantity'', with_notNull (column_of PgReal)),
     (''unit'', with_notNull (column_of PgText)),
     (''status'', with_notNull (column_of PgText)),
     (''lastUpdated'', with_default (with_notNull (column_of PgTimestamp)))]"

definition activities_table :: table where
  "activities_table =
    [(''id'', primaryKey (column_of PgSerial)),
     (''userId'', with_notNull (column_of PgInteger)),
     (''type'', with_notNull (column_of PgText)),
     (''description'', with_notNull (column_of PgText)),
     (''location'', with_notNull (column_of PgText)),
     (''team'', column_of PgText),
     (''timestamp'', with_default (with_notNull (column_of PgTimestamp))),
     (''coordinates'', column_of PgJsonb)]"

definition tasks_table :: table where
  "tasks_table =
    [(''id'', primaryKey (column_of PgSerial)),
     (''title'', with_notNull (column_of PgText)),
     (''description'', column_of PgText),
     (''location'', with_notNull (column_of PgText)),
     (''priority'', with_default (with_notNull (column_of PgText))),
     (''status'', with_default (with_notNull (column_of PgText))),
     (''category'', with_notNull (column_of PgText)),
     (''assignedTo'', column_of PgInteger),
     (''scheduledDate'', with_notNull (column_of PgTimestamp)),
     (''completed'', with_default (with_notNull (column_of PgBoolean))),
     (''completedAt'', column_of PgTimestamp)]"

definition metrics_table :: table where
  "metrics_table =
    [(''id'', primaryKey (column_of PgSerial)),
     (''name'', with_notNull (column_of PgText)),
     (''value'', with_notNull (column_of PgReal)),
     (''unit'', with_notNull (column_of PgText)),
     (''previousValue'', column_of PgReal),
     (''changePercentage'', column_of PgReal),
     (''trend'', column_of PgText),
     (''icon'', column_of PgText),
     (''category'', with_notNull (column_of PgText)),
     (''timestamp'', with_default (with_notNull (column_of PgTimestamp)))]"

subsection \<open>Insert schemas\<close>

text \<open>
  \<open>createInsertSchema\<close> (drizzle-zod) turns a table into an object schema: one field
  per column, typed after the column's data type; a column that may be null gives a
  nullable and optional field, a column with a default an optional field. \<open>pick\<close>
  keeps the fields named in its argument, \<open>partial\<close> makes every field optional. The
  value checks are the type checks of the data type; a \<open>jsonb\<close> column takes any JSON
  value. The library is not part of the sources and its versions differ on numbers: the
  later ones also bound a \<open>real\<close> column (between -8388608 and 8388607) and want a
  32-bit integer for an \<open>integer\<close> column. These range checks are left out here; the
  numbers in the properties below lie inside them.
\<close>

datatype ztype = ZString | ZNumber | ZBoolean | ZDate | ZJson

record zfield =
  ztype :: ztype
  znullable :: bool
  zoptional :: bool

type_synonym zshape = "(string \<times> zfield) list"

definition mapColumnToSchema :: "coltype \<Rightarrow> ztype" where
  "mapColumnToSchema t =
     (case t of PgSerial \<Rightarrow> ZNumber | PgText \<Rightarrow> ZString | PgInteger \<Rightarrow> ZNumber
      | PgReal \<Rightarrow> ZNumber | PgBoolean \<Rightarrow> ZBoolean | PgTimestamp \<Rightarrow> ZDate
      | PgJsonb \<Rightarrow> ZJson)"

definition createInsertSchema :: "table \<Rightarrow> zshape" where
  "createInsertSchema tbl =
     map (\<lambda>(name, c).
            (name, \<lparr>ztype = mapColumnToSchema (ctype c),
                    znullable = (\<not> notNull c),
                    zoptional = (\<not> notNull c \<or> hasDefault c)\<rparr>)) tbl"

definition pick :: "string list \<Rightarrow> zshape \<Rightarrow> zshape" where
  "pick ks shape =
     concat (map (\<lambda>k. case map_of shape k of None \<Rightarrow> [] | Some f \<Rightarrow> [(k, f)]) ks)"

definition partial :: "zshape \<Rightarrow> zshape" where
  "partial shape = map (\<lambda>(k, f). (k, f\<lparr>zoptional := True\<rparr>)) shape"

definition insertUserSchema :: zshape where
  "insertUserSchema =
     pick [''username'', ''password'', ''fullName'', ''email'', ''role'', ''profileImage'']
       (createInsertSchema users_table)"

definition insertRegionSchema :: zshape where
  "insertRegionSchema =
     pick [''name'', ''description'', ''coordinates''] (createInsertSchema regions_table)"

definition insertLocationSchema :: zshape where
  "insertLocationSchema =
     pick [''regionId'', ''name'', ''status'', ''coordinates'']
       (createInsertSchema locations_table)"

definition insertInventorySchema :: zshape where
  "insertInventorySchema =
     pick [''type'', ''name'', ''quantity'', ''unit'', ''status'']
       (createInsertSchema inventory_table)"

definition insertActivitySchema :: zshape where
  "insertActivitySchema =
     pick [''userId'', ''type'', ''description'', ''location'', ''team'', ''coordinates'']
       (createInsertSchema activities_table)"

definition insertTaskSchema :: zshape where
  "insertTaskSchema =
     pick [''title'', ''description'', ''location'', ''priority'', ''status'', ''category'',
           ''assignedTo'', ''scheduledDate'']
       (createInsertSchema tasks_table)"

definition insertMetricSchema :: zshape where
  "insertMetricSchema =
     pick [''name'', ''value'', ''unit'', ''previousValue'', ''changePercentage'', ''trend'',
           ''icon'', ''category'']
       (createInsertSchema metrics_table)"

subsection \<open>Parsing a value against a schema\<close>

text \<open>
  \<open>schema.parse(value)\<close> returns the parsed object or throws a \<open>ZodError\<close> holding
  one issue per violated field (path and message). The parsed object holds the fields of
  the schema that the input defines and nothing else: keys the schema does not name are
  stripped.
\<close>

type_synonym issue = "string \<times> string"

fun is_json :: "jsval \<Rightarrow> bool" where
  "is_json (JDate t) = False"
| "is_json (JArr xs) = list_all is_json xs"
| "is_json (JObj kvs) = list_all (\<lambda>kv. is_json (snd kv)) kvs"
| "is_json _ = True"

fun accepts :: "ztype \<Rightarrow> jsval \<Rightarrow> bool" where
  "accepts ZString v = (case v of JStr s \<Rightarrow> True | _ \<Rightarrow> False)"
| "accepts ZNumber v = (case v of JNum x \<Rightarrow> True | _ \<Rightarrow> False)"
| "accepts ZBoolean v = (case v of JBool b \<Rightarrow> True | _ \<Rightarrow> False)"
| "accepts ZDate v = (case v of JDate t \<Rightarrow> True | _ \<Rightarrow> False)"
| "accepts ZJson v = is_json v"

fun type_name :: "jsval \<Rightarrow> string" where
  "type_name JNull = ''null''"
| "type_name (JBool b) = ''boolean''"
| "type_name (JNum x) = ''number''"
| "type_name (JStr s) = ''string''"
| "type_name (JDate t) = ''date''"
| "type_name (JArr xs) = ''array''"
| "type_name (JObj kvs) = ''object''"

fun invalid_message :: "ztype \<Rightarrow> jsval \<Rightarrow> string" where
  "invalid_message ZString v = ''Expected string, received '' @ type_name v"
| "invalid_message ZNumber v = ''Expected number, received '' @ type_name v"
| "invalid_message ZBoolean v = ''Expected boolean, received '' @ type_name v"
| "invalid_message ZDate v = ''Expected date, received '' @ type_name v"
| "invalid_message ZJson v = ''Invalid input''"

definition parse_field :: "string \<Rightarrow> zfield \<Rightarrow> jsval option \<Rightarrow> issue list \<times> obj" where
  "parse_field k f v =
     (case v of
        None \<Rightarrow> if zoptional f then ([], []) else ([(k, ''Required'')], [])
      | Some x \<Rightarrow>
          if (x = JNull \<and> znullable f) \<or> accepts (ztype f) x then ([], [(k, x)])
          else ([(k, invalid_message (ztype f) x)], []))"

definition parse_fields :: "zshape \<Rightarrow> obj \<Rightarrow> issue list \<times> obj" where
  "parse_fields shape input =
     (let rs = map (\<lambda>(k, f). parse_field k f (fld input k)) shape
      in (concat (map fst rs), concat (map snd rs)))"

definition parse :: "zshape \<Rightarrow> jsval \<Rightarrow> issue list + obj" where
  "parse shape v =
     (case v of
        JObj input \<Rightarrow>
          (case parse_fields shape input of
             ([], out) \<Rightarrow> Inr out
           | (i # is, out) \<Rightarrow> Inl (i # is))
      | _ \<Rightarrow> Inl [([], ''Expected object, received '' @ type_name v)])"

text \<open>
  \<open>fromZodError(error).message\<close> (zod-validation-error): the issues, each with its
  path, joined after a fixed prefix.
\<close>

definition render_issue :: "issue \<Rightarrow> string" where
  "render_issue i =
     (if fst i = [] then snd i else snd i @ '' at '' @ [CHR 0x22] @ fst i @ [CHR 0x22])"

fun join :: "string \<Rightarrow> string list \<Rightarrow> string" where
  "join sep [] = []"
| "join sep [x] = x"
| "join sep (x # y # ys) = x @ sep @ join sep (y # ys)"

definition fromZodError :: "issue list \<Rightarrow> string" where
  "fromZodError issues = ''Validation error: '' @ join ''; '' (map render_issue issues)"

section \<open>The in-memory store (server/storage.ts)\<close>

text \<open>
  \<open>MemStorage\<close> holds one \<open>Map\<close> and one id counter per entity. A method that changes
  the store takes it and returns it updated, next to the method's result; a method that
  reads the clock (\<open>new Date()\<close>) takes the time read as \<open>now\<close>. A record is the
  object the method builds; \<open>Map.get\<close> giving \<open>undefined\<close> is \<open>None\<close>.
\<close>

record storage =
  users :: "obj jsmap"
  regions :: "obj jsmap"
  locations :: "obj jsmap"
  inventoryItems :: "obj jsmap"
  activities :: "obj jsmap"
  tasks :: "obj jsmap"
  metrics :: "obj jsmap"
  userId :: int
  regionId :: int
  locationId :: int
  inventoryId :: int
  activityId :: int
  taskId :: int
  metricId :: int

definition MemStorage_init :: storage where
  "MemStorage_init =
     \<lparr>users = [], regions = [], locations = [], inventoryItems = [], activities = [],
      tasks = [], metrics = [],
      userId = 1, regionId = 1, locationId = 1, inventoryId = 1, activityId = 1,
      taskId = 1, metricId = 1\<rparr>"

subsection \<open>User methods\<close>

definition getUser :: "jsnum \<Rightarrow> storage \<Rightarrow> obj option" where
  "getUser k s = map_get (users s) k"

definition getUserByUsername :: "string \<Rightarrow> storage \<Rightarrow> obj option" where
  "getUserByUsername username s =
     find (\<lambda>user. fld user ''username'' = Some (JStr username)) (map_values (users s))"

definition getUsers :: "storage \<Rightarrow> obj list" where
  "getUsers s = map_values (users s)"

definition createUser :: "obj \<Rightarrow> storage \<Rightarrow> obj \<times> storage" where
  "createUser insertUser s =
     (let k = userId s;
          user = object_of (insertUser @ [(''id'', JNum (of_int k))])
      in (user, s\<lparr>userId := k + 1, users := map_set (Num k) user (users s)\<rparr>))"

definition updateUser :: "jsnum \<Rightarrow> obj \<Rightarrow> storage \<Rightarrow> obj option \<times> storage" where
  "updateUser k userData s =
     (case map_get (users s) k of
        None \<Rightarrow> (None, s)
      | Some existingUser \<Rightarrow>
          (let updatedUser = object_of (existingUser @ userData)
           in (Some updatedUser, s\<lparr>users := map_set k updatedUser (users s)\<rparr>)))"

definition deleteUser :: "jsnum \<Rightarrow> storage \<Rightarrow> bool \<times> storage" where
  "deleteUser k s = (let (existed, m) = map_delete k (users s) in (existed, s\<lparr>users := m\<rparr>))"

subsection \<open>Region methods\<close>

definition getRegion :: "jsnum \<Rightarrow> storage \<Rightarrow> obj option" where
  "getRegion k s = map_get (regions s) k"

definition getRegions :: "storage \<Rightarrow> obj list" where
  "getRegions s = map_values (regions s)"

definition createRegion :: "obj \<Rightarrow> storage \<Rightarrow> obj \<times> storage" where
  "createRegion insertRegion s =
     (let k = regionId s;
          region = object_of (insertRegion @ [(''id'', JNum (of_int k))])
      in (region, s\<lparr>regionId := k + 1, regions := map_set (Num k) region (regions s)\<rparr>))"

definition updateRegion :: "jsnum \<Rightarrow> obj \<Rightarrow> storage \<Rightarrow> obj option \<times> storage" where
  "updateRegion k regionData s =
     (case map_get (regions s) k of
        None \<Rightarrow> (None, s)
      | Some existingRegion \<Rightarrow>
          (let updatedRegion = object_of (existingRegion @ regionData)
           in (Some updatedRegion, s\<lparr>regions := map_set k updatedRegion (regions s)\<rparr>)))"

definition deleteRegion :: "jsnum \<Rightarrow> storage \<Rightarrow> bool \<times> storage" where
  "deleteRegion k s = (let (existed, m) = map_delete k (regions s) in (existed, s\<lparr>regions := m\<rparr>))"

subsection \<open>Location methods\<close>

definition getLocation :: "jsnum \<Rightarrow> storage \<Rightarrow> obj option" where
  "getLocation k s = map_get (locations s) k"

definition getLocations :: "storage \<Rightarrow> obj list" where
  "getLocations s = map_values (locations s)"

definition getLocationsByRegion :: "jsnum \<Rightarrow> storage \<Rightarrow> obj list" where
  "getLocationsByRegion rid s =
     filter (\<lambda>location. strict_eq_num (fld location ''regionId'') rid)
       (map_values (locations s))"

definition createLocation :: "obj \<Rightarrow> int \<Rightarrow> storage \<Rightarrow> obj \<times> storage" where
  "createLocation insertLocation now s =
     (let k = locationId s;
          location = object_of (insertLocation @ [(''id'', JNum (of_int k)), (''lastUpdated'', JDate now)])
      in (location, s\<lparr>locationId := k + 1, locations := map_set (Num k) location (locations s)\<rparr>))"

definition updateLocation :: "jsnum \<Rightarrow> obj \<Rightarrow> int \<Rightarrow> storage \<Rightarrow> obj option \<times> storage" where
  "updateLocation k locationData now s =
     (case map_get (locations s) k of
        None \<Rightarrow> (None, s)
      | Some existingLocation \<Rightarrow>
          (let updatedLocation = object_of (existingLocation @ locationData @ [(''lastUpdated'', JDate now)])
           in (Some updatedLocation, s\<lparr>locations := map_set k updatedLocation (locations s)\<rparr>)))"

definition deleteLocation :: "jsnum \<Rightarrow> storage \<Rightarrow> bool \<times> storage" where
  "deleteLocation k s = (let (existed, m) = map_delete k (locations s) in (existed, s\<lparr>locations := m\<rparr>))"

subsection \<open>InventoryItem methods\<close>

definition getInventoryItem :: "jsnum \<Rightarrow> storage \<Rightarrow> obj option" where
  "getInventoryItem k s = map_get (inventoryItems s) k"

definition getInventoryItems :: "storage \<Rightarrow> obj list" where
  "getInventoryItems s = map_values (inventoryItems s)"

definition createInventoryItem :: "obj \<Rightarrow> int \<Rightarrow> storage \<Rightarrow> obj \<times> storage" where
  "createInventoryItem insertItem now s =
     (let k = inventoryId s;
          item = object_of (insertItem @ [(''id'', JNum (of_int k)), (''lastUpdated'', JDate now)])
      in (item, s\<lparr>inventoryId := k + 1, inventoryItems := map_set (Num k) item (inventoryItems s)\<rparr>))"

definition updateInventoryItem :: "jsnum \<Rightarrow> obj \<Rightarrow> int \<Rightarrow> storage \<Rightarrow> obj option \<times> storage" where
  "updateInventoryItem k itemData now s =
     (case map_get (inventoryItems s) k of
        None \<Rightarrow> (None, s)
      | Some existingItem \<Rightarrow>
          (let updatedItem = object_of (existingItem @ itemData @ [(''lastUpdated'', JDate now)])
           in (Some updatedItem, s\<lparr>inventoryItems := map_set k updatedItem (inventoryItems s)\<rparr>)))"

definition deleteInventoryItem :: "jsnum \<Rightarrow> storage \<Rightarrow> bool \<times> storage" where
  "deleteInventoryItem k s = (let (existed, m) = map_delete k (inventoryItems s) in (existed, s\<lparr>inventoryItems := m\<rparr>))"

subsection \<open>Activity methods\<close>

definition getActivity :: "jsnum \<Rightarrow> storage \<Rightarrow> obj option" where
  "getActivity k s = map_get (activities s) k"

definition getActivities :: "storage \<Rightarrow> obj list" where
  "getActivities s = map_values (activities s)"

definition getRecentActivities :: "jsnum \<Rightarrow> storage \<Rightarrow> obj list" where
  "getRecentActivities limit s =
     slice0 limit
       (sort_key (\<lambda>a. - getTime (fld a ''timestamp'')) (map_values (activities s)))"

definition createActivity :: "obj \<Rightarrow> int \<Rightarrow> storage \<Rightarrow> obj \<times> storage" where
  "createActivity insertActivity now s =
     (let k = activityId s;
          activity = object_of (insertActivity @ [(''id'', JNum (of_int k)), (''timestamp'', JDate now)])
      in (activity, s\<lparr>activityId := k + 1, activities := map_set (Num k) activity (activities s)\<rparr>))"

definition updateActivity :: "jsnum \<Rightarrow> obj \<Rightarrow> storage \<Rightarrow> obj option \<times> storage" where
  "updateActivity k activityData s =
     (case map_get (activities s) k of
        None \<Rightarrow> (None, s)
      | Some existingActivity \<Rightarrow>
          (let updatedActivity = object_of (existingActivity @ activityData)
           in (Some updatedActivity, s\<lparr>activities := map_set k updatedActivity (activities s)\<rparr>)))"

definition deleteActivity :: "jsnum \<Rightarrow> storage \<Rightarrow> bool \<times> storage" where
  "deleteActivity k s = (let (existed, m) = map_delete k (activities s) in (existed, s\<lparr>activities := m\<rparr>))"

subsection \<open>Task methods\<close>

definition getTask :: "jsnum \<Rightarrow> storage \<Rightarrow> obj option" where
  "getTask k s = map_get (tasks s) k"

definition getTasks :: "storage \<Rightarrow> obj list" where
  "getTasks s = map_values (tasks s)"

definition getUpcomingTasks :: "jsnum \<Rightarrow> int \<Rightarrow> storage \<Rightarrow> obj list" where
  "getUpcomingTasks limit now s =
     slice0 limit
       (sort_key (\<lambda>a. getTime (fld a ''scheduledDate''))
          (filter (\<lambda>task. \<not> truthy (fld task ''completed'')
                         \<and> getTime (fld task ''scheduledDate'') > now)
             (map_values (tasks s))))"

definition createTask :: "obj \<Rightarrow> storage \<Rightarrow> obj \<times> storage" where
  "createTask insertTask s =
     (let k = taskId s;
          task = object_of (insertTask @ [(''id'', JNum (of_int k)), (''completed'', JBool False), (''completedAt'', JNull)])
      in (task, s\<lparr>taskId := k + 1, tasks := map_set (Num k) task (tasks s)\<rparr>))"

definition updateTask :: "jsnum \<Rightarrow> obj \<Rightarrow> storage \<Rightarrow> obj option \<times> storage" where
  "updateTask k taskData s =
     (case map_get (tasks s) k of
        None \<Rightarrow> (None, s)
      | Some existingTask \<Rightarrow>
          (let updatedTask = object_of (existingTask @ taskData)
           in (Some updatedTask, s\<lparr>tasks := map_set k updatedTask (tasks s)\<rparr>)))"

definition completeTask :: "jsnum \<Rightarrow> int \<Rightarrow> storage \<Rightarrow> obj option \<times> storage" where
  "completeTask k now s =
     (case map_get (tasks s) k of
        None \<Rightarrow> (None, s)
      | Some existingTask \<Rightarrow>
          (let completedTask =
                 object_of (existingTask @
                   [(''completed'', JBool True), (''status'', JStr ''completed''),
                    (''completedAt'', JDate now)])
           in (Some completedTask, s\<lparr>tasks := map_set k completedTask (tasks s)\<rparr>)))"

definition deleteTask :: "jsnum \<Rightarrow> storage \<Rightarrow> bool \<times> storage" where
  "deleteTask k s = (let (existed, m) = map_delete k (tasks s) in (existed, s\<lparr>tasks := m\<rparr>))"

subsection \<open>Metric methods\<close>

definition getMetric :: "jsnum \<Rightarrow> storage \<Rightarrow> obj option" where
  "getMetric k s = map_get (metrics s) k"

definition getMetrics :: "storage \<Rightarrow> obj list" where
  "getMetrics s = map_values (metrics s)"

definition categories :: "string list" where
  "categories = [''coverage'', ''species'', ''risk'', ''health'']"

definition getLatestMetrics :: "storage \<Rightarrow> obj list" where
  "getLatestMetrics s =
     fold (\<lambda>category latestMetrics.
             let categoryMetrics =
                   sort_key (\<lambda>a. - getTime (fld a ''timestamp''))
                     (filter (\<lambda>metric. fld metric ''category'' = Some (JStr category))
                        (map_values (metrics s)))
             in if length categoryMetrics > 0 then latestMetrics @ [categoryMetrics ! 0]
                else latestMetrics)
       categories []"

definition createMetric :: "obj \<Rightarrow> int \<Rightarrow> storage \<Rightarrow> obj \<times> storage" where
  "createMetric insertMetric now s =
     (let k = metricId s;
          metric = object_of (insertMetric @ [(''id'', JNum (of_int k)), (''timestamp'', JDate now)])
      in (metric, s\<lparr>metricId := k + 1, metrics := map_set (Num k) metric (metrics s)\<rparr>))"

definition updateMetric :: "jsnum \<Rightarrow> obj \<Rightarrow> storage \<Rightarrow> obj option \<times> storage" where
  "updateMetric k metricData s =
     (case map_get (metrics s) k of
        None \<Rightarrow> (None, s)
      | Some existingMetric \<Rightarrow>
          (let updatedMetric = object_of (existingMetric @ metricData)
           in (Some updatedMetric, s\<lparr>metrics := map_set k updatedMetric (metrics s)\<rparr>)))"

definition deleteMetric :: "jsnum \<Rightarrow> storage \<Rightarrow> bool \<times> storage" where
  "deleteMetric k s = (let (existed, m) = map_delete k (metrics s) in (existed, s\<lparr>metrics := m\<rparr>))"

subsection \<open>Seed data and the constructor\<close>

text \<open>
  \<open>seedData\<close> is a fixed sequence of creates. \<open>clk n\<close> is the time the \<open>n\<close>-th
  \<open>new Date()\<close> of a create reads; \<open>d1\<close>, \<open>d2\<close>, \<open>d3\<close> are the three future dates
  the calendar arithmetic of \<open>setDate\<close> gives for the seeded tasks.
\<close>

definition seedUsers :: "storage \<Rightarrow> storage" where
  "seedUsers s0 =
     (let s1 = snd (createUser
            [(''username'', JStr ''admin''),
             (''password'', JStr ''admin123''),
             (''fullName'', JStr ''Admin User''),
             (''email'', JStr ''admin@forestmanager.com''),
             (''role'', JStr ''admin''),
             (''profileImage'', JNull)] s0);
          s2 = snd (createUser
            [(''username'', JStr ''jforester''),
             (''password'', JStr ''password123''),
             (''fullName'', JStr ''John Forester''),
             (''email'', JStr ''john@forestmanager.com''),
             (''role'', JStr ''manager''),
             (''profileImage'', JNull)] s1);
          s3 = snd (createUser
            [(''username'', JStr ''fieldworker''),
             (''password'', JStr ''field123''),
             (''fullName'', JStr ''Field Worker''),
             (''email'', JStr ''field@forestmanager.com''),
             (''role'', JStr ''field_worker''),
             (''profileImage'', JNull)] s2)
      in s3)"

definition seedRegions :: "storage \<Rightarrow> storage" where
  "seedRegions s0 =
     (let s1 = snd (createRegion
            [(''name'', JStr ''North Region''),
             (''description'', JStr ''Northern forest area with pine and spruce trees''),
             (''coordinates'', JObj [(''type'', JStr ''Polygon''),
           (''coordinates'', JArr [JArr [JArr [JNum (45.3), JNum (- 122.7)],
             JArr [JNum (45.4), JNum (- 122.7)],
             JArr [JNum (45.4), JNum (- 122.6)],
             JArr [JNum (45.3), JNum (- 122.6)],
             JArr [JNum (45.3), JNum (- 122.7)]]])])] s0);
          s2 = snd (createRegion
            [(''name'', JStr ''East Region''),
             (''description'', JStr ''Eastern forest with mixed deciduous trees''),
             (''coordinates'', JObj [(''type'', JStr ''Polygon''),
           (''coordinates'', JArr [JArr [JArr [JNum (45.2), JNum (- 122.5)],
             JArr [JNum (45.3), JNum (- 122.5)],
             JArr [JNum (45.3), JNum (- 122.4)],
             JArr [JNum (45.2), JNum (- 122.4)],
             JArr [JNum (45.2), JNum (- 122.5)]]])])] s1);
          s3 = snd (createRegion
            [(''name'', JStr ''South Region''),
             (''description'', JStr ''Southern forest border with oak and maple''),
             (''coordinates'', JObj [(''type'', JStr ''Polygon''),
           (''coordinates'', JArr [JArr [JArr [JNum (45.1), JNum (- 122.6)],
             JArr [JNum (45.2), JNum (- 122.6)],
             JArr [JNum (45.2), JNum (- 122.5)],
             JArr [JNum (45.1), JNum (- 122.5)],
             JArr [JNum (45.1), JNum (- 122.6)]]])])] s2);
          s4 = snd (createRegion
            [(''name'', JStr ''West Region''),
             (''description'', JStr ''Western border with mixed coniferous forest''),
             (''coordinates'', JObj [(''type'', JStr ''Polygon''),
           (''coordinates'', JArr [JArr [JArr [JNum (45.2), JNum (- 122.8)],
             JArr [JNum (45.3), JNum (- 122.8)],
             JArr [JNum (45.3), JNum (- 122.7)],
             JArr [JNum (45.2), JNum (- 122.7)],
             JArr [JNum (45.2), JNum (- 122.8)]]])])] s3)
      in s4)"

definition seedLocations :: "(nat \<Rightarrow> int) \<Rightarrow> storage \<Rightarrow> storage" where
  "seedLocations clk s0 =
     (let s1 = snd (createLocation
            [(''regionId'', JNum (1)),
             (''name'', JStr ''North Ridge Trail''),
             (''status'', JStr ''healthy''),
             (''coordinates'', JObj [(''type'', JStr ''Point''), (''coordinates'', JArr [JNum (45.35), JNum (- 122.75)])])] (clk 0) s0);
          s2 = snd (createLocation
            [(''regionId'', JNum (2)),
             (''name'', JStr ''East Forest Boundary''),
             (''status'', JStr ''monitoring''),
             (''coordinates'', JObj [(''type'', JStr ''Point''), (''coordinates'', JArr [JNum (45.25), JNum (- 122.45)])])] (clk 1) s1);
          s3 = snd (createLocation
            [(''regionId'', JNum (3)),
             (''name'', JStr ''Southern Clearing''),
             (''status'', JStr ''critical''),
             (''coordinates'', JObj [(''type'', JStr ''Point''), (''coordinates'', JArr [JNum (45.15), JNum (- 122.55)])])] (clk 2) s2)
      in s3)"

definition seedInventory :: "(nat \<Rightarrow> int) \<Rightarrow> storage \<Rightarrow> storage" where
  "seedInventory clk s0 =
     (let s1 = snd (createInventoryItem
            [(''type'', JStr ''plant''),
             (''name'', JStr ''Pine Saplings''),
             (''quantity'', JNum (1250)),
             (''unit'', JStr ''units''),
             (''status'', JStr ''available'')] (clk 3) s0);
          s2 = snd (createInventoryItem
            [(''type'', JStr ''water''),
             (''name'', JStr ''Water Reserves''),
             (''quantity'', JNum (15000)),
             (''unit'', JStr ''liters''),
             (''status'', JStr ''low_supply'')] (clk 4) s1);
          s3 = snd (createInventoryItem
            [(''type'', JStr ''fertilizer''),
             (''name'', JStr ''Fertilizer''),
             (''quantity'', JNum (500)),
             (''unit'', JStr ''kg''),
             (''status'', JStr ''available'')] (clk 5) s2);
          s4 = snd (createInventoryItem
            [(''type'', JStr ''tools''),
             (''name'', JStr ''Tools''),
             (''quantity'', JNum (45)),
             (''unit'', JStr ''sets''),
             (''status'', JStr ''maintenance'')] (clk 6) s3)
      in s4)"

definition seedActivities :: "(nat \<Rightarrow> int) \<Rightarrow> storage \<Rightarrow> storage" where
  "seedActivities clk s0 =
     (let s1 = snd (createActivity
            [(''userId'', JNum (2)),
             (''type'', JStr ''planting''),
             (''description'', JStr ''Planted 250 new saplings''),
             (''location'', JStr ''North Sector''),
             (''team'', JStr ''Field Team Alpha''),
             (''coordinates'', JObj [(''type'', JStr ''Point''), (''coordinates'', JArr [JNum (45.34), JNum (- 122.72)])])] (clk 7) s0);
          s2 = snd (createActivity
            [(''userId'', JNum (3)),
             (''type'', JStr ''monitoring''),
             (''description'', JStr ''Soil quality assessment completed''),
             (''location'', JStr ''East Sector''),
             (''team'', JStr ''Research Team''),
             (''coordinates'', JObj [(''type'', JStr ''Point''), (''coordinates'', JArr [JNum (45.26), JNum (- 122.47)])])] (clk 8) s1);
          s3 = snd (createActivity
            [(''userId'', JNum (2)),
             (''type'', JStr ''maintenance''),
             (''description'', JStr ''Pest detection alert''),
             (''location'', JStr ''South Sector''),
             (''team'', JStr ''Monitoring Station 4''),
             (''coordinates'', JObj [(''type'', JStr ''Point''), (''coordinates'', JArr [JNum (45.14), JNum (- 122.56)])])] (clk 9) s2);
          s4 = snd (createActivity
            [(''userId'', JNum (3)),
             (''type'', JStr ''maintenance''),
             (''description'', JStr ''Irrigation system maintenance''),
             (''location'', JStr ''West Sector''),
             (''team'', JStr ''Maintenance Team''),
             (''coordinates'', JObj [(''type'', JStr ''Point''), (''coordinates'', JArr [JNum (45.24), JNum (- 122.76)])])] (clk 10) s3)
      in s4)"

definition seedTasks :: "int \<Rightarrow> int \<Rightarrow> int \<Rightarrow> storage \<Rightarrow> storage" where
  "seedTasks d1 d2 d3 s0 =
     (let s1 = snd (createTask
            [(''title'', JStr ''Weekly tree health inspection''),
             (''description'', JStr ''Complete standard health assessment for all trees in sector''),
             (''location'', JStr ''North Region''),
             (''priority'', JStr ''normal''),
             (''status'', JStr ''pending''),
             (''category'', JStr ''routine''),
             (''assignedTo'', JNum (2)),
             (''scheduledDate'', JDate d1)] s0);
          s2 = snd (createTask
            [(''title'', JStr ''Trail maintenance and clearing''),
             (''description'', JStr ''Clear fallen branches and repair walking paths''),
             (''location'', JStr ''East Region''),
             (''priority'', JStr ''normal''),
             (''status'', JStr ''pending''),
             (''category'', JStr ''maintenance''),
             (''assignedTo'', JNum (3)),
             (''scheduledDate'', JDate d2)] s1);
          s3 = snd (createTask
            [(''title'', JStr ''Wildlife census preparations''),
             (''description'', JStr ''Set up camera traps and prepare for upcoming wildlife count''),
             (''location'', JStr ''All Regions''),
             (''priority'', JStr ''high''),
             (''status'', JStr ''pending''),
             (''category'', JStr ''monitoring''),
             (''assignedTo'', JNum (2)),
             (''scheduledDate'', JDate d3)] s2)
      in s3)"

definition seedMetrics :: "(nat \<Rightarrow> int) \<Rightarrow> storage \<Rightarrow> storage" where
  "seedMetrics clk s0 =
     (let s1 = snd (createMetric
            [(''name'', JStr ''Forest Coverage''),
             (''value'', JNum (12450)),
             (''unit'', JStr ''ha''),
             (''previousValue'', JNum (12150)),
             (''changePercentage'', JNum (2.4)),
             (''trend'', JStr ''up''),
             (''icon'', JStr ''park''),
             (''category'', JStr ''coverage'')] (clk 11) s0);
          s2 = snd (createMetric
            [(''name'', JStr ''Tree Species''),
             (''value'', JNum (78)),
             (''unit'', JStr ''species''),
             (''previousValue'', JNum (73)),
             (''changePercentage'', JNum (6.8)),
             (''trend'', JStr ''up''),
             (''icon'', JStr ''eco''),
             (''category'', JStr ''species'')] (clk 12) s1);
          s3 = snd (createMetric
            [(''name'', JStr ''Fire Risk Index''),
             (''value'', JNum (24)),
             (''unit'', JStr ''''),
             (''previousValue'', JNum (21)),
             (''changePercentage'', JNum (12)),
             (''trend'', JStr ''up''),
             (''icon'', JStr ''local_fire_department''),
             (''category'', JStr ''risk'')] (clk 13) s2);
          s4 = snd (createMetric
            [(''name'', JStr ''Health Index''),
             (''value'', JNum (87.5)),
             (''unit'', JStr ''%''),
             (''previousValue'', JNum (84.8)),
             (''changePercentage'', JNum (3.2)),
             (''trend'', JStr ''up''),
             (''icon'', JStr ''monitor_heart''),
             (''category'', JStr ''health'')] (clk 14) s3)
      in s4)"

definition seedData :: "(nat \<Rightarrow> int) \<Rightarrow> int \<Rightarrow> int \<Rightarrow> int \<Rightarrow> storage \<Rightarrow> storage" where
  "seedData clk d1 d2 d3 s =
     seedMetrics clk (seedTasks d1 d2 d3 (seedActivities clk (seedInventory clk
       (seedLocations clk (seedRegions (seedUsers s))))))"

definition MemStorage :: "(nat \<Rightarrow> int) \<Rightarrow> int \<Rightarrow> int \<Rightarrow> int \<Rightarrow> storage" where
  "MemStorage clk d1 d2 d3 = seedData clk d1 d2 d3 MemStorage_init"

section \<open>The route handlers (server/routes.ts)\<close>

text \<open>
  A handler takes what it reads of the request (the \<open>:id\<close> path segment, a query
  parameter, absent as \<open>None\<close>, the parsed JSON body), the time where the storage
  method it calls reads the clock, and the store; it returns the response and the store.
  \<open>Json c v\<close> is \<open>res.status(c).json(v)\<close>, \<open>End c\<close> is \<open>res.status(c).end()\<close>.
  A \<open>ZodError\<close> thrown by \<open>parse\<close> is caught and answered through
  \<open>handleZodError\<close>; nothing else in the handlers below throws.
\<close>

datatype response = Json nat jsval | End nat

fun status :: "response \<Rightarrow> nat" where
  "status (Json c v) = c"
| "status (End c) = c"

definition error_body :: "string \<Rightarrow> jsval" where
  "error_body msg = JObj [(''error'', JStr msg)]"

definition handleZodError :: "issue list \<Rightarrow> response" where
  "handleZodError issues = Json 400 (error_body (fromZodError issues))"

subsection \<open>/api/users\<close>

definition get_users :: "storage \<Rightarrow> response \<times> storage" where
  "get_users s = (Json 200 (JArr (map JObj (getUsers s))), s)"

definition get_users_id :: "string \<Rightarrow> storage \<Rightarrow> response \<times> storage" where
  "get_users_id seg s =
     (let k = parseInt seg
      in case getUser k s of
           None \<Rightarrow> (Json 404 (error_body ''User not found''), s)
         | Some user \<Rightarrow> (Json 200 (JObj user), s))"

definition post_users :: "jsval \<Rightarrow> storage \<Rightarrow> response \<times> storage" where
  "post_users body s =
     (case parse insertUserSchema body of
        Inl issues \<Rightarrow> (handleZodError issues, s)
      | Inr userData \<Rightarrow>
          (let (user, s') = createUser userData s in (Json 201 (JObj user), s')))"

definition put_users_id :: "string \<Rightarrow> jsval \<Rightarrow> storage \<Rightarrow> response \<times> storage" where
  "put_users_id seg body s =
     (let k = parseInt seg
      in case parse (partial insertUserSchema) body of
           Inl issues \<Rightarrow> (handleZodError issues, s)
         | Inr userData \<Rightarrow>
             (case updateUser k userData s of
                (None, s') \<Rightarrow> (Json 404 (error_body ''User not found''), s')
              | (Some updated, s') \<Rightarrow> (Json 200 (JObj updated), s')))"

definition delete_users_id :: "string \<Rightarrow> storage \<Rightarrow> response \<times> storage" where
  "delete_users_id seg s =
     (let k = parseInt seg;
          (success, s') = deleteUser k s
      in if \<not> success then (Json 404 (error_body ''User not found''), s')
         else (End 204, s'))"

subsection \<open>/api/regions\<close>

definition get_regions :: "storage \<Rightarrow> response \<times> storage" where
  "get_regions s = (Json 200 (JArr (map JObj (getRegions s))), s)"

definition get_regions_id :: "string \<Rightarrow> storage \<Rightarrow> response \<times> storage" where
  "get_regions_id seg s =
     (let k = parseInt seg
      in case getRegion k s of
           None \<Rightarrow> (Json 404 (error_body ''Region not found''), s)
         | Some region \<Rightarrow> (Json 200 (JObj region), s))"

definition post_regions :: "jsval \<Rightarrow> storage \<Rightarrow> response \<times> storage" where
  "post_regions body s =
     (case parse insertRegionSchema body of
        Inl issues \<Rightarrow> (handleZodError issues, s)
      | Inr regionData \<Rightarrow>
          (let (region, s') = createRegion regionData s in (Json 201 (JObj region), s')))"

definition put_regions_id :: "string \<Rightarrow> jsval \<Rightarrow> storage \<Rightarrow> response \<times> storage" where
  "put_regions_id seg body s =
     (let k = parseInt seg
      in case parse (partial insertRegionSchema) body of
           Inl issues \<Rightarrow> (handleZodError issues, s)
         | Inr regionData \<Rightarrow>
             (case updateRegion k regionData s of
                (None, s') \<Rightarrow> (Json 404 (error_body ''Region not found''), s')
              | (Some updated, s') \<Rightarrow> (Json 200 (JObj updated), s')))"

definition delete_regions_id :: "string \<Rightarrow> storage \<Rightarrow> response \<times> storage" where
  "delete_regions_id seg s =
     (let k = parseInt seg;
          (success, s') = deleteRegion k s
      in if \<not> success then (Json 404 (error_body ''Region not found''), s')
         else (End 204, s'))"

subsection \<open>/api/locations\<close>

definition get_locations :: "string option \<Rightarrow> storage \<Rightarrow> response \<times> storage" where
  "get_locations q s =
     (let regionId = (case q of None \<Rightarrow> None
                      | Some str \<Rightarrow> if str \<noteq> [] then Some (parseInt str) else None)
      in if truthy_num regionId
         then (Json 200 (JArr (map JObj (getLocationsByRegion (the regionId) s))), s)
         else (Json 200 (JArr (map JObj (getLocations s))), s))"

definition get_locations_id :: "string \<Rightarrow> storage \<Rightarrow> response \<times> storage" where
  "get_locations_id seg s =
     (let k = parseInt seg
      in case getLocation k s of
           None \<Rightarrow> (Json 404 (error_body ''Location not found''), s)
         | Some location \<Rightarrow> (Json 200 (JObj location), s))"

definition post_locations :: "jsval \<Rightarrow> int \<Rightarrow> storage \<Rightarrow> response \<times> storage" where
  "post_locations body now s =
     (case parse insertLocationSchema body of
        Inl issues \<Rightarrow> (handleZodError issues, s)
      | Inr locationData \<Rightarrow>
          (let (location, s') = createLocation locationData now s in (Json 201 (JObj location), s')))"

definition put_locations_id :: "string \<Rightarrow> jsval \<Rightarrow> int \<Rightarrow> storage \<Rightarrow> response \<times> storage" where
  "put_locations_id seg body now s =
     (let k = parseInt seg
      in case parse (partial insertLocationSchema) body of
           Inl issues \<Rightarrow> (handleZodError issues, s)
         | Inr locationData \<Rightarrow>
             (case updateLocation k locationData now s of
                (None, s') \<Rightarrow> (Json 404 (error_body ''Location not found''), s')
              | (Some updated, s') \<Rightarrow> (Json 200 (JObj updated), s')))"

definition delete_locations_id :: "string \<Rightarrow> storage \<Rightarrow> response \<times> storage" where
  "delete_locations_id seg s =
     (let k = parseInt seg;
          (success, s') = deleteLocation k s
      in if \<not> success then (Json 404 (error_body ''Location not found''), s')
         else (End 204, s'))"

subsection \<open>/api/inventory\<close>

definition get_inventory :: "storage \<Rightarrow> response \<times> storage" where
  "get_inventory s = (Json 200 (JArr (map JObj (getInventoryItems s))), s)"

definition get_inventory_id :: "string \<Rightarrow> storage \<Rightarrow> response \<times> storage" where
  "get_inventory_id seg s =
     (let k = parseInt seg
      in case getInventoryItem k s of
           None \<Rightarrow> (Json 404 (error_body ''Inventory item not found''), s)
         | Some item \<Rightarrow> (Json 200 (JObj item), s))"

definition post_inventory :: "jsval \<Rightarrow> int \<Rightarrow> storage \<Rightarrow> response \<times> storage" where
  "post_inventory body now s =
     (case parse insertInventorySchema body of
        Inl issues \<Rightarrow> (handleZodError issues, s)
      | Inr itemData \<Rightarrow>
          (let (item, s') = createInventoryItem itemData now s in (Json 201 (JObj item), s')))"

definition put_inventory_id :: "string \<Rightarrow> jsval \<Rightarrow> int \<Rightarrow> storage \<Rightarrow> response \<times> storage" where
  "put_inventory_id seg body now s =
     (let k = parseInt seg
      in case parse (partial insertInventorySchema) body of
           Inl issues \<Rightarrow> (handleZodError issues, s)
         | Inr itemData \<Rightarrow>
             (case updateInventoryItem k itemData now s of
                (None, s') \<Rightarrow> (Json 404 (error_body ''Inventory item not found''), s')
              | (Some updated, s') \<Rightarrow> (Json 200 (JObj updated), s')))"

definition delete_inventory_id :: "string \<Rightarrow> storage \<Rightarrow> response \<times> storage" where
  "delete_inventory_id seg s =
     (let k = parseInt seg;
          (success, s') = deleteInventoryItem k s
      in if \<not> success then (Json 404 (error_body ''Inventory item not found''), s')
         else (End 204, s'))"

subsection \<open>/api/activities\<close>

definition get_activities :: "string option \<Rightarrow> storage \<Rightarrow> response \<times> storage" where
  "get_activities q s =
     (let limit = (case q of None \<Rightarrow> None
                   | Some str \<Rightarrow> if str \<noteq> [] then Some (parseInt str) else None)
      in if truthy_num limit
         then (Json 200 (JArr (map JObj (getRecentActivities (the limit) s))), s)
         else (Json 200 (JArr (map JObj (getActivities s))), s))"

definition get_activities_id :: "string \<Rightarrow> storage \<Rightarrow> response \<times> storage" where
  "get_activities_id seg s =
     (let k = parseInt seg
      in case getActivity k s of
           None \<Rightarrow> (Json 404 (error_body ''Activity not found''), s)
         | Some activity \<Rightarrow> (Json 200 (JObj activity), s))"

definition post_activities :: "jsval \<Rightarrow> int \<Rightarrow> storage \<Rightarrow> response \<times> storage" where
  "post_activities body now s =
     (case parse insertActivitySchema body of
        Inl issues \<Rightarrow> (handleZodError issues, s)
      | Inr activityData \<Rightarrow>
          (let (activity, s') = createActivity activityData now s in (Json 201 (JObj activity), s')))"

definition put_activities_id :: "string \<Rightarrow> jsval \<Rightarrow> storage \<Rightarrow> response \<times> storage" where
  "put_activities_id seg body s =
     (let k = parseInt seg
      in case parse (partial insertActivitySchema) body of
           Inl issues \<Rightarrow> (handleZodError issues, s)
         | Inr activityData \<Rightarrow>
             (case updateActivity k activityData s of
                (None, s') \<Rightarrow> (Json 404 (error_body ''Activity not found''), s')
              | (Some updated, s') \<Rightarrow> (Json 200 (JObj updated), s')))"

definition delete_activities_id :: "string \<Rightarrow> storage \<Rightarrow> response \<times> storage" where
  "delete_activities_id seg s =
     (let k = parseInt seg;
          (success, s') = deleteActivity k s
      in if \<not> success then (Json 404 (error_body ''Activity not found''), s')
         else (End 204, s'))"

subsection \<open>/api/tasks\<close>

definition get_tasks :: "string option \<Rightarrow> int \<Rightarrow> storage \<Rightarrow> response \<times> storage" where
  "get_tasks q now s =
     (let limit = (case q of None \<Rightarrow> None
                   | Some str \<Rightarrow> if str \<noteq> [] then Some (parseInt str) else None)
      in if truthy_num limit
         then (Json 200 (JArr (map JObj (getUpcomingTasks (the limit) now s))), s)
         else (Json 200 (JArr (map JObj (getTasks s))), s))"

definition get_tasks_id :: "string \<Rightarrow> storage \<Rightarrow> response \<times> storage" where
  "get_tasks_id seg s =
     (let k = parseInt seg
      in case getTask k s of
           None \<Rightarrow> (Json 404 (error_body ''Task not found''), s)
         | Some task \<Rightarrow> (Json 200 (JObj task), s))"

definition post_tasks :: "jsval \<Rightarrow> storage \<Rightarrow> response \<times> storage" where
  "post_tasks body s =
     (case parse insertTaskSchema body of
        Inl issues \<Rightarrow> (handleZodError issues, s)
      | Inr taskData \<Rightarrow>
          (let (task, s') = createTask taskData s in (Json 201 (JObj task), s')))"

definition put_tasks_id :: "string \<Rightarrow> jsval \<Rightarrow> storage \<Rightarrow> response \<times> storage" where
  "put_tasks_id seg body s =
     (let k = parseInt seg
      in case parse (partial insertTaskSchema) body of
           Inl issues \<Rightarrow> (handleZodError issues, s)
         | Inr taskData \<Rightarrow>
             (case updateTask k taskData s of
                (None, s') \<Rightarrow> (Json 404 (error_body ''Task not found''), s')
              | (Some updated, s') \<Rightarrow> (Json 200 (JObj updated), s')))"

definition put_tasks_id_complete :: "string \<Rightarrow> int \<Rightarrow> storage \<Rightarrow> response \<times> storage" where
  "put_tasks_id_complete seg now s =
     (let k = parseInt seg
      in case completeTask k now s of
           (None, s') \<Rightarrow> (Json 404 (error_body ''Task not found''), s')
         | (Some completedTask, s') \<Rightarrow> (Json 200 (JObj completedTask), s'))"

definition delete_tasks_id :: "string \<Rightarrow> storage \<Rightarrow> response \<times> storage" where
  "delete_tasks_id seg s =
     (let k = parseInt seg;
          (success, s') = deleteTask k s
      in if \<not> success then (Json 404 (error_body ''Task not found''), s')
         else (End 204, s'))"

subsection \<open>/api/metrics\<close>

definition get_metrics :: "string option \<Rightarrow> storage \<Rightarrow> response \<times> storage" where
  "get_metrics q s =
     (let latest = (q = Some ''true'')
      in if latest then (Json 200 (JArr (map JObj (getLatestMetrics s))), s)
         else (Json 200 (JArr (map JObj (getMetrics s))), s))"

definition get_metrics_id :: "string \<Rightarrow> storage \<Rightarrow> response \<times> storage" where
  "get_metrics_id seg s =
     (let k = parseInt seg
      in case getMetric k s of
           None \<Rightarrow> (Json 404 (error_body ''Metric not found''), s)
         | Some metric \<Rightarrow> (Json 200 (JObj metric), s))"

definition post_metrics :: "jsval \<Rightarrow> int \<Rightarrow> storage \<Rightarrow> response \<times> storage" where
  "post_metrics body now s =
     (case parse insertMetricSchema body of
        Inl issues \<Rightarrow> (handleZodError issues, s)
      | Inr metricData \<Rightarrow>
          (let (metric, s') = createMetric metricData now s in (Json 201 (JObj metric), s')))"

definition put_metrics_id :: "string \<Rightarrow> jsval \<Rightarrow> storage \<Rightarrow> response \<times> storage" where
  "put_metrics_id seg body s =
     (let k = parseInt seg
      in case parse (partial insertMetricSchema) body of
           Inl issues \<Rightarrow> (handleZodError issues, s)
         | Inr metricData \<Rightarrow>
             (case updateMetric k metricData s of
                (None, s') \<Rightarrow> (Json 404 (error_body ''Metric not found''), s')
              | (Some updated, s') \<Rightarrow> (Json 200 (JObj updated), s')))"

definition delete_metrics_id :: "string \<Rightarrow> storage \<Rightarrow> response \<times> storage" where
  "delete_metrics_id seg s =
     (let k = parseInt seg;
          (success, s') = deleteMetric k s
      in if \<not> success then (Json 404 (error_body ''Metric not found''), s')
         else (End 204, s'))"

section \<open>Entities, uniformly\<close>

text \<open>
  The seven entities share one pattern. To state a property for every entity, the
  functions below select the collection, the counter, the methods and the handlers of
  an entity; a method that does not read the clock ignores \<open>now\<close>.
\<close>

datatype entity = User | Region | Location | Inventory | Activity | Task | Metric

fun collection :: "entity \<Rightarrow> storage \<Rightarrow> obj jsmap" where
  "collection User s = users s"
| "collection Region s = regions s"
| "collection Location s = locations s"
| "collection Inventory s = inventoryItems s"
| "collection Activity s = activities s"
| "collection Task s = tasks s"
| "collection Metric s = metrics s"

fun counter :: "entity \<Rightarrow> storage \<Rightarrow> int" where
  "counter User s = userId s"
| "counter Region s = regionId s"
| "counter Location s = locationId s"
| "counter Inventory s = inventoryId s"
| "counter Activity s = activityId s"
| "counter Task s = taskId s"
| "counter Metric s = metricId s"

fun get :: "entity \<Rightarrow> jsnum \<Rightarrow> storage \<Rightarrow> obj option" where
  "get User = getUser"
| "get Region = getRegion"
| "get Location = getLocation"
| "get Inventory = getInventoryItem"
| "get Activity = getActivity"
| "get Task = getTask"
| "get Metric = getMetric"

fun create :: "entity \<Rightarrow> obj \<Rightarrow> int \<Rightarrow> storage \<Rightarrow> obj \<times> storage" where
  "create User p now = createUser p"
| "create Region p now = createRegion p"
| "create Location p now = createLocation p now"
| "create Inventory p now = createInventoryItem p now"
| "create Activity p now = createActivity p now"
| "create Task p now = createTask p"
| "create Metric p now = createMetric p now"

fun update :: "entity \<Rightarrow> jsnum \<Rightarrow> obj \<Rightarrow> int \<Rightarrow> storage \<Rightarrow> obj option \<times> storage" where
  "update User k p now = updateUser k p"
| "update Region k p now = updateRegion k p"
| "update Location k p now = updateLocation k p now"
| "update Inventory k p now = updateInventoryItem k p now"
| "update Activity k p now = updateActivity k p"
| "update Task k p now = updateTask k p"
| "update Metric k p now = updateMetric k p"

fun delete :: "entity \<Rightarrow> jsnum \<Rightarrow> storage \<Rightarrow> bool \<times> storage" where
  "delete User = deleteUser"
| "delete Region = deleteRegion"
| "delete Location = deleteLocation"
| "delete Inventory = deleteInventoryItem"
| "delete Activity = deleteActivity"
| "delete Task = deleteTask"
| "delete Metric = deleteMetric"

text \<open>The fields the storage layer assigns on create, next to \<open>id\<close>.\<close>

fun server_fields :: "entity \<Rightarrow> int \<Rightarrow> (string \<times> jsval) list" where
  "server_fields User now = []"
| "server_fields Region now = []"
| "server_fields Location now = [(''lastUpdated'', JDate now)]"
| "server_fields Inventory now = [(''lastUpdated'', JDate now)]"
| "server_fields Activity now = [(''timestamp'', JDate now)]"
| "server_fields Task now = [(''completed'', JBool False), (''completedAt'', JNull)]"
| "server_fields Metric now = [(''timestamp'', JDate now)]"

text \<open>The entities whose update refreshes \<open>lastUpdated\<close>.\<close>

fun refreshes :: "entity \<Rightarrow> bool" where
  "refreshes Location = True"
| "refreshes Inventory = True"
| "refreshes e = False"

fun not_found :: "entity \<Rightarrow> string" where
  "not_found User = ''User not found''"
| "not_found Region = ''Region not found''"
| "not_found Location = ''Location not found''"
| "not_found Inventory = ''Inventory item not found''"
| "not_found Activity = ''Activity not found''"
| "not_found Task = ''Task not found''"
| "not_found Metric = ''Metric not found''"

fun insertSchema :: "entity \<Rightarrow> zshape" where
  "insertSchema User = insertUserSchema"
| "insertSchema Region = insertRegionSchema"
| "insertSchema Location = insertLocationSchema"
| "insertSchema Inventory = insertInventorySchema"
| "insertSchema Activity = insertActivitySchema"
| "insertSchema Task = insertTaskSchema"
| "insertSchema Metric = insertMetricSchema"

fun get_by_id :: "entity \<Rightarrow> string \<Rightarrow> storage \<Rightarrow> response \<times> storage" where
  "get_by_id User = get_users_id"
| "get_by_id Region = get_regions_id"
| "get_by_id Location = get_locations_id"
| "get_by_id Inventory = get_inventory_id"
| "get_by_id Activity = get_activities_id"
| "get_by_id Task = get_tasks_id"
| "get_by_id Metric = get_metrics_id"

fun post :: "entity \<Rightarrow> jsval \<Rightarrow> int \<Rightarrow> storage \<Rightarrow> response \<times> storage" where
  "post User body now = post_users body"
| "post Region body now = post_regions body"
| "post Location body now = post_locations body now"
| "post Inventory body now = post_inventory body now"
| "post Activity body now = post_activities body now"
| "post Task body now = post_tasks body"
| "post Metric body now = post_metrics body now"

fun put_by_id :: "entity \<Rightarrow> string \<Rightarrow> jsval \<Rightarrow> int \<Rightarrow> storage \<Rightarrow> response \<times> storage" where
  "put_by_id User seg body now = put_users_id seg body"
| "put_by_id Region seg body now = put_regions_id seg body"
| "put_by_id Location seg body now = put_locations_id seg body now"
| "put_by_id Inventory seg body now = put_inventory_id seg body now"
| "put_by_id Activity seg body now = put_activities_id seg body"
| "put_by_id Task seg body now = put_tasks_id seg body"
| "put_by_id Metric seg body now = put_metrics_id seg body"

fun delete_by_id :: "entity \<Rightarrow> string \<Rightarrow> storage \<Rightarrow> response \<times> storage" where
  "delete_by_id User = delete_users_id"
| "delete_by_id Region = delete_regions_id"
| "delete_by_id Location = delete_locations_id"
| "delete_by_id Inventory = delete_inventory_id"
| "delete_by_id Activity = delete_activities_id"
| "delete_by_id Task = delete_tasks_id"
| "delete_by_id Metric = delete_metrics_id"

section \<open>Sequences of storage calls\<close>

text \<open>
  A client of the store issues creates, updates, deletes and task completions in any
  order. \<open>run\<close> applies a sequence of calls; \<open>assigned e cs s\<close> lists, in order, the
  \<open>id\<close> property of the records that the creates of entity \<open>e\<close> in \<open>cs\<close> return.
\<close>

datatype call =
    Create entity obj int
  | Update entity jsnum obj int
  | Delete entity jsnum
  | Complete jsnum int

fun step :: "call \<Rightarrow> storage \<Rightarrow> storage" where
  "step (Create e p now) s = snd (create e p now s)"
| "step (Update e k p now) s = snd (update e k p now s)"
| "step (Delete e k) s = snd (delete e k s)"
| "step (Complete k now) s = snd (completeTask k now s)"

definition run :: "call list \<Rightarrow> storage \<Rightarrow> storage" where
  "run cs s = fold step cs s"

fun assigned :: "entity \<Rightarrow> call list \<Rightarrow> storage \<Rightarrow> jsval option list" where
  "assigned e [] s = []"
| "assigned e (Create e' p now # cs) s =
     (if e' = e then [fld (fst (create e p now s)) ''id''] else []) @
     assigned e cs (step (Create e' p now) s)"
| "assigned e (c # cs) s = assigned e cs (step c s)"

fun creates :: "entity \<Rightarrow> call list \<Rightarrow> nat" where
  "creates e [] = 0"
| "creates e (Create e' p now # cs) = (if e' = e then 1 else 0) + creates e cs"
| "creates e (c # cs) = creates e cs"

text \<open>
  The partial insert types have no \<open>id\<close> field: an update payload of these types does
  not define \<open>id\<close>.
\<close>

fun call_typed :: "call \<Rightarrow> bool" where
  "call_typed (Update e k p now) = (fld p ''id'' = None)"
| "call_typed c = True"

text \<open>The number of records of each entity that \<open>seedData\<close> creates.\<close>

fun seed_count :: "entity \<Rightarrow> int" where
  "seed_count User = 3"
| "seed_count Region = 4"
| "seed_count Location = 3"
| "seed_count Inventory = 4"
| "seed_count Activity = 4"
| "seed_count Task = 3"
| "seed_count Metric = 4"

text \<open>
  The state of the ids of a collection: the counter is positive, every key is a positive
  integer below the counter, no key occurs twice, and a record carries its key as its
  \<open>id\<close>.
\<close>

fun entry_ok :: "int \<Rightarrow> jsnum \<times> obj \<Rightarrow> bool" where
  "entry_ok c (NaN, r) = False"
| "entry_ok c (Num i, r) = (0 < i \<and> i < c \<and> fld r ''id'' = Some (JNum (of_int i)))"

definition ids_ok :: "entity \<Rightarrow> storage \<Rightarrow> bool" where
  "ids_ok e s =
     (0 < counter e s \<and> distinct (map fst (collection e s)) \<and>
      list_all (entry_ok (counter e s)) (collection e s))"

definition entities :: "entity list" where
  "entities = [User, Region, Location, Inventory, Activity, Task, Metric]"

text \<open>No collection has \<open>NaN\<close> as a key: keys come from the counters.\<close>

definition keys_numeric :: "storage \<Rightarrow> bool" where
  "keys_numeric s = list_all (\<lambda>e. NaN \<notin> set (map fst (collection e s))) entities"

section \<open>What the entity types say of the stored records\<close>

text \<open>
  The store is typed \<open>Map<number, Task>\<close> and \<open>Map<number, Metric>\<close>: a stored task
  has a boolean \<open>completed\<close> and a Date \<open>scheduledDate\<close>, a stored metric a Date
  \<open>timestamp\<close>. The methods that compare dates rely on it.
\<close>

definition is_bool :: "jsval option \<Rightarrow> bool" where
  "is_bool v = (case v of Some (JBool b) \<Rightarrow> True | _ \<Rightarrow> False)"

definition is_date :: "jsval option \<Rightarrow> bool" where
  "is_date v = (case v of Some (JDate t) \<Rightarrow> True | _ \<Rightarrow> False)"

definition tasks_typed :: "storage \<Rightarrow> bool" where
  "tasks_typed s =
     list_all (\<lambda>t. is_bool (fld t ''completed'') \<and> is_date (fld t ''scheduledDate''))
       (getTasks s)"

definition metrics_typed :: "storage \<Rightarrow> bool" where
  "metrics_typed s = list_all (\<lambda>m. is_date (fld m ''timestamp'')) (getMetrics s)"

section \<open>A concrete store\<close>

text \<open>
  The store of a server started at time 1000, the clock advancing by one millisecond
  per reading, with the seeded tasks scheduled 5, 7 and 10 days later.
\<close>

definition seed_clock :: "nat \<Rightarrow> int" where
  "seed_clock n = 1000 + int n"

definition seeded_store :: storage where
  "seeded_store = MemStorage seed_clock 432001000 604801000 864001000"

text \<open>
  The seeded store after two more metrics were created: one of a category outside the
  fixed list at time 4000, and a second health metric at time 5000.
\<close>

definition metrics_store :: storage where
  "metrics_store =
     snd (createMetric
            [(''name'', JStr ''Health Index''), (''value'', JNum 90), (''unit'', JStr ''%''),
             (''category'', JStr ''health'')] 5000
       (snd (createMetric
               [(''name'', JStr ''Soil acidity''), (''value'', JNum 6.5), (''unit'', JStr ''pH''),
                (''category'', JStr ''soil'')] 4000 seeded_store)))"

section \<open>Properties\<close>

subsection \<open>Objects\<close>

lemma map_of_rev_distinct: "distinct (map fst xs) \<Longrightarrow> map_of (rev xs) = map_of xs"
  by (induction xs)
     (auto simp: map_add_def fun_eq_iff split: option.splits dest: map_of_SomeD
           intro: rev_image_eqI)

lemma fold_update_distinct:
  "distinct (map fst acc) \<Longrightarrow> distinct (map fst (fold (\<lambda>(k, v). AList.update k v) ps acc))"
  by (induction ps arbitrary: acc) (auto simp: distinct_update)

lemma fold_update_map_of:
  "map_of (fold (\<lambda>(k, v). AList.update k v) ps acc) = map_of acc ++ map_of (rev ps)"
  by (induction ps arbitrary: acc)
     (auto simp: update_conv' fun_eq_iff map_add_def split: option.splits)

lemma distinct_object_of: "distinct (map fst (object_of ps))"
  by (simp add: object_of_def fold_update_distinct)

lemma fld_object_of [simp]: "fld (object_of ps) = fld ps"
proof
  fix k
  have "fld (object_of ps) k = map_of (object_of ps) k"
    by (simp add: fld_def map_of_rev_distinct distinct_object_of)
  also have "\<dots> = fld ps k"
    by (simp add: object_of_def fold_update_map_of fld_def)
  finally show "fld (object_of ps) k = fld ps k" .
qed

lemma fld_append: "fld (a @ b) k = (case fld b k of None \<Rightarrow> fld a k | Some v \<Rightarrow> Some v)"
  by (simp add: fld_def map_add_def split: option.splits)

lemma fld_Nil [simp]: "fld [] k = None"
  by (simp add: fld_def)

lemma fld_snoc [simp]: "fld (a @ [(k', v)]) k = (if k = k' then Some v else fld a k)"
  by (simp add: fld_def)

lemma fld_Cons: "fld ((k', v) # a) k = (case fld a k of None \<Rightarrow> (if k = k' then Some v else None) | Some w \<Rightarrow> Some w)"
  by (simp add: fld_def map_add_def split: option.splits)

subsection \<open>Maps\<close>

lemma map_get_set [simp]: "map_get (map_set k v m) k' = (if k' = k then Some v else map_get m k')"
  by (simp add: map_get_def map_set_def update_conv')

lemma map_get_delete [simp]:
  "map_get (snd (map_delete k m)) k' = (if k' = k then None else map_get m k')"
  by (simp add: map_get_def map_delete_def delete_conv')

lemma map_has_get: "map_has m k \<longleftrightarrow> map_get m k \<noteq> None"
  by (simp add: map_has_def map_get_def map_of_eq_None_iff)

lemma map_delete_absent: "map_get m k = None \<Longrightarrow> map_delete k m = (False, m)"
  by (simp add: map_delete_def map_has_get) (simp add: map_get_def map_of_eq_None_iff)

lemma distinct_map_set: "distinct (map fst m) \<Longrightarrow> distinct (map fst (map_set k v m))"
  by (simp add: map_set_def distinct_update)

lemma distinct_map_delete: "distinct (map fst m) \<Longrightarrow> distinct (map fst (snd (map_delete k m)))"
  by (simp add: map_delete_def distinct_delete)

lemma NaN_get: "NaN \<notin> set (map fst m) \<Longrightarrow> map_get m NaN = None"
  by (simp add: map_get_def map_of_eq_None_iff)

subsection \<open>Evaluating the schemas\<close>

lemmas column_defs =
  column_of_def with_notNull_def with_default_def primaryKey_def unique_def
  mapColumnToSchema_def createInsertSchema_def pick_def

lemma insertInventorySchema_eval:
  "insertInventorySchema =
     [(''type'', \<lparr>ztype = ZString, znullable = False, zoptional = False\<rparr>),
      (''name'', \<lparr>ztype = ZString, znullable = False, zoptional = False\<rparr>),
      (''quantity'', \<lparr>ztype = ZNumber, znullable = False, zoptional = False\<rparr>),
      (''unit'', \<lparr>ztype = ZString, znullable = False, zoptional = False\<rparr>),
      (''status'', \<lparr>ztype = ZString, znullable = False, zoptional = False\<rparr>)]"
  by (simp add: insertInventorySchema_def inventory_table_def column_defs)

lemma parse_oak_saplings:
  "parse insertInventorySchema
     (JObj [(''type'', JStr ''plant''), (''name'', JStr ''Oak Saplings''), (''quantity'', JNum (- 5)),
            (''unit'', JStr ''units''), (''status'', JStr ''available'')]) =
   Inr [(''type'', JStr ''plant''), (''name'', JStr ''Oak Saplings''), (''quantity'', JNum (- 5)),
        (''unit'', JStr ''units''), (''status'', JStr ''available'')]"
  by (simp add: insertInventorySchema_eval parse_def parse_fields_def parse_field_def fld_def)

lemma post_oak_saplings:
  "post_inventory
     (JObj [(''type'', JStr ''plant''), (''name'', JStr ''Oak Saplings''), (''quantity'', JNum (- 5)),
            (''unit'', JStr ''units''), (''status'', JStr ''available'')]) now s =
   (Json 201
      (JObj [(''type'', JStr ''plant''), (''name'', JStr ''Oak Saplings''), (''quantity'', JNum (- 5)),
             (''unit'', JStr ''units''), (''status'', JStr ''available''),
             (''id'', JNum (of_int (inventoryId s))), (''lastUpdated'', JDate now)]),
    snd (createInventoryItem
           [(''type'', JStr ''plant''), (''name'', JStr ''Oak Saplings''), (''quantity'', JNum (- 5)),
            (''unit'', JStr ''units''), (''status'', JStr ''available'')] now s))"
  by (simp add: post_inventory_def parse_oak_saplings createInventoryItem_def object_of_def
        Let_def)

subsection \<open>The storage methods, entity by entity\<close>

lemmas create_defs =
  createUser_def createRegion_def createLocation_def createInventoryItem_def
  createActivity_def createTask_def createMetric_def

lemmas update_defs =
  updateUser_def updateRegion_def updateLocation_def updateInventoryItem_def
  updateActivity_def updateTask_def updateMetric_def

lemmas delete_defs =
  deleteUser_def deleteRegion_def deleteLocation_def deleteInventoryItem_def
  deleteActivity_def deleteTask_def deleteMetric_def

lemmas get_defs =
  getUser_def getRegion_def getLocation_def getInventoryItem_def
  getActivity_def getTask_def getMetric_def

lemma get_collection: "get e k s = map_get (collection e s) k"
  by (cases e) (simp_all add: get_defs)

lemma create_result:
  "fst (create e p now s) =
     object_of (p @ (''id'', JNum (of_int (counter e s))) # server_fields e now)"
  by (cases e) (simp_all add: create_defs Let_def)

lemma create_counter:
  "counter e (snd (create e' p now s)) = (if e' = e then counter e s + 1 else counter e s)"
  by (cases e; cases e') (simp_all add: create_defs Let_def)

lemma create_collection:
  "collection e (snd (create e' p now s)) =
     (if e' = e then map_set (Num (counter e s)) (fst (create e p now s)) (collection e s)
      else collection e s)"
  by (cases e; cases e') (simp_all add: create_defs Let_def)

lemma update_result:
  "fst (update e k p now s) =
     (case get e k s of None \<Rightarrow> None
      | Some old \<Rightarrow>
          Some (object_of (old @ p @ (if refreshes e then [(''lastUpdated'', JDate now)] else []))))"
  by (cases e) (simp_all add: update_defs get_defs Let_def split: option.splits)

lemma update_counter: "counter e (snd (update e' k p now s)) = counter e s"
  by (cases e; cases e') (simp_all add: update_defs Let_def split: option.splits)

lemma update_collection:
  "collection e (snd (update e' k p now s)) =
     (case fst (update e' k p now s) of
        None \<Rightarrow> collection e s
      | Some r \<Rightarrow> if e' = e then map_set k r (collection e s) else collection e s)"
  by (cases e; cases e') (simp_all add: update_defs Let_def split: option.splits)

lemma delete_counter: "counter e (snd (delete e' k s)) = counter e s"
  by (cases e; cases e') (simp_all add: delete_defs map_delete_def)

lemma delete_collection:
  "collection e (snd (delete e' k s)) =
     (if e' = e then snd (map_delete k (collection e s)) else collection e s)"
  by (cases e; cases e') (simp_all add: delete_defs map_delete_def)

lemma complete_result:
  "fst (completeTask k now s) =
     (case getTask k s of None \<Rightarrow> None
      | Some old \<Rightarrow>
          Some (object_of (old @ [(''completed'', JBool True), (''status'', JStr ''completed''),
                                  (''completedAt'', JDate now)])))"
  by (simp add: completeTask_def getTask_def Let_def split: option.splits)

lemma complete_counter: "counter e (snd (completeTask k now s)) = counter e s"
  by (cases e) (simp_all add: completeTask_def Let_def split: option.splits)

lemma complete_collection:
  "collection e (snd (completeTask k now s)) =
     (case fst (completeTask k now s) of
        None \<Rightarrow> collection e s
      | Some r \<Rightarrow> if e = Task then map_set k r (collection e s) else collection e s)"
  by (cases e) (simp_all add: completeTask_def Let_def split: option.splits)

subsection \<open>Ids\<close>

lemma list_all_update:
  "P (k, v) \<Longrightarrow> list_all P m \<Longrightarrow> list_all P (AList.update k v m)"
  by (induction m) auto

lemma list_all_delete: "list_all P m \<Longrightarrow> list_all P (AList.delete k m)"
  by (induction m) auto

lemma entry_ok_mono: "entry_ok c x \<Longrightarrow> c \<le> c' \<Longrightarrow> entry_ok c' x"
  by (cases "(c, x)" rule: entry_ok.cases) auto

lemma list_all_entry_ok_mono:
  "list_all (entry_ok c) m \<Longrightarrow> c \<le> c' \<Longrightarrow> list_all (entry_ok c') m"
  by (induction m) (auto intro: entry_ok_mono)

lemma map_get_entry: "map_get m k = Some r \<Longrightarrow> list_all P m \<Longrightarrow> P (k, r)"
  by (auto simp: map_get_def list_all_iff dest: map_of_SomeD)

lemma fld_server_fields_id [simp]: "fld (server_fields e now) ''id'' = None"
  by (cases e) (simp_all add: fld_def)

lemma create_id: "fld (fst (create e p now s)) ''id'' = Some (JNum (of_int (counter e s)))"
  by (simp add: create_result fld_append fld_Cons)

lemma ids_ok_create: "ids_ok e s \<Longrightarrow> ids_ok e (snd (create e' p now s))"
proof (cases "e' = e")
  case False
  then show "ids_ok e s \<Longrightarrow> ?thesis"
    by (simp add: ids_ok_def create_counter create_collection)
next
  case True
  assume ok: "ids_ok e s"
  let ?c = "counter e s"
  let ?r = "fst (create e p now s)"
  have "entry_ok (?c + 1) (Num ?c, ?r)"
    using ok by (simp add: ids_ok_def create_id)
  moreover have "list_all (entry_ok (?c + 1)) (collection e s)"
    using ok by (auto simp: ids_ok_def intro: list_all_entry_ok_mono)
  ultimately have "list_all (entry_ok (?c + 1)) (map_set (Num ?c) ?r (collection e s))"
    by (simp add: map_set_def list_all_update)
  then show ?thesis
    using ok True by (simp add: ids_ok_def create_counter create_collection distinct_map_set)
qed

lemma ids_ok_merge:
  assumes ok: "ids_ok e s" and g: "map_get (collection e s) k = Some old"
    and r: "fld r ''id'' = fld old ''id''"
  shows "list_all (entry_ok (counter e s)) (map_set k r (collection e s))"
proof -
  have "entry_ok (counter e s) (k, old)"
    using ok g by (auto simp: ids_ok_def intro: map_get_entry)
  then have "entry_ok (counter e s) (k, r)"
    using r by (cases k) simp_all
  then show ?thesis
    using ok by (simp add: ids_ok_def map_set_def list_all_update)
qed

lemma ids_ok_update:
  assumes ok: "ids_ok e s" and p: "fld p ''id'' = None"
  shows "ids_ok e (snd (update e' k p now s))"
proof (cases "e' = e \<and> get e k s \<noteq> None")
  case False
  then show ?thesis
    using ok by (auto simp: ids_ok_def update_counter update_collection update_result
        split: option.splits)
next
  case True
  then obtain old where old: "get e k s = Some old" and e: "e' = e"
    by auto
  let ?r = "object_of (old @ p @ (if refreshes e then [(''lastUpdated'', JDate now)] else []))"
  have res: "fst (update e k p now s) = Some ?r"
    by (simp add: update_result old)
  have "fld ?r ''id'' = fld old ''id''"
    using p by (simp add: fld_append fld_Cons)
  then have "list_all (entry_ok (counter e s)) (map_set k ?r (collection e s))"
    using ok old by (intro ids_ok_merge) (simp_all add: get_collection)
  then show ?thesis
    using ok e res by (simp add: ids_ok_def update_counter update_collection distinct_map_set)
qed

lemma ids_ok_complete:
  assumes ok: "ids_ok e s"
  shows "ids_ok e (snd (completeTask k now s))"
proof (cases "e = Task \<and> getTask k s \<noteq> None")
  case False
  then show ?thesis
    using ok by (auto simp: ids_ok_def complete_counter complete_collection complete_result
        split: option.splits)
next
  case True
  then obtain old where old: "getTask k s = Some old" and e: "e = Task"
    by auto
  let ?r = "object_of (old @ [(''completed'', JBool True), (''status'', JStr ''completed''),
                                  (''completedAt'', JDate now)])"
  have res: "fst (completeTask k now s) = Some ?r"
    by (simp add: complete_result old)
  have "fld ?r ''id'' = fld old ''id''"
    by (simp add: fld_append fld_Cons)
  then have "list_all (entry_ok (counter e s)) (map_set k ?r (collection e s))"
    using ok old e by (intro ids_ok_merge) (simp_all add: getTask_def)
  then show ?thesis
    using ok e res by (simp add: ids_ok_def complete_counter complete_collection distinct_map_set)
qed

lemma ids_ok_delete: "ids_ok e s \<Longrightarrow> ids_ok e (snd (delete e' k s))"
  by (auto simp: ids_ok_def delete_counter delete_collection map_delete_def distinct_delete
      list_all_delete)

lemma ids_ok_step: "ids_ok e s \<Longrightarrow> call_typed c \<Longrightarrow> ids_ok e (step c s)"
  by (cases c) (simp_all add: ids_ok_create ids_ok_update ids_ok_delete ids_ok_complete)

lemma ids_ok_run: "ids_ok e s \<Longrightarrow> list_all call_typed cs \<Longrightarrow> ids_ok e (run cs s)"
  unfolding run_def by (induction cs arbitrary: s) (simp_all add: ids_ok_step)

lemma assigned_closed:
  "assigned e cs s =
     map (\<lambda>i. Some (JNum (of_int i))) [counter e s .. counter e s + int (creates e cs) - 1]"
proof (induction cs arbitrary: s)
  case Nil
  then show ?case by simp
next
  case (Cons c cs)
  show ?case
  proof (cases c)
    case (Create e' p now)
    show ?thesis
    proof (cases "e' = e")
      case True
      have "[counter e s .. counter e s + int (creates e (c # cs)) - 1] =
              counter e s # [counter e s + 1 .. counter e s + 1 + int (creates e cs) - 1]"
        using True Create by (subst upto_rec1) (simp_all add: algebra_simps)
      then show ?thesis
        using True Create Cons.IH [of "step c s"] by (simp add: create_id create_counter)
    next
      case False
      then show ?thesis
        using Create Cons.IH [of "step c s"] by (simp add: create_counter)
    qed
  next
    case (Update e' k p now)
    then show ?thesis using Cons.IH [of "step c s"] by (simp add: update_counter)
  next
    case (Delete e' k)
    then show ?thesis using Cons.IH [of "step c s"] by (simp add: delete_counter)
  next
    case (Complete k now)
    then show ?thesis using Cons.IH [of "step c s"] by (simp add: complete_counter)
  qed
qed

lemma ids_ok_init: "ids_ok e MemStorage_init"
  by (cases e) (simp_all add: ids_ok_def MemStorage_init_def)

lemma counter_init: "counter e MemStorage_init = 1"
  by (cases e) (simp_all add: MemStorage_init_def)

subsection \<open>The seeded store\<close>

lemma ids_ok_create_each:
  assumes "ids_ok e s"
  shows "ids_ok e (snd (createUser p s))"
    and "ids_ok e (snd (createRegion p s))"
    and "ids_ok e (snd (createLocation p now s))"
    and "ids_ok e (snd (createInventoryItem p now s))"
    and "ids_ok e (snd (createActivity p now s))"
    and "ids_ok e (snd (createTask p s))"
    and "ids_ok e (snd (createMetric p now s))"
  using assms ids_ok_create [of e s User p now] ids_ok_create [of e s Region p now]
    ids_ok_create [of e s Location p now] ids_ok_create [of e s Inventory p now]
    ids_ok_create [of e s Activity p now] ids_ok_create [of e s Task p now]
    ids_ok_create [of e s Metric p now]
  by simp_all

lemma counter_create_each:
  "counter e (snd (createUser p s)) = (if e = User then counter e s + 1 else counter e s)"
  "counter e (snd (createRegion p s)) = (if e = Region then counter e s + 1 else counter e s)"
  "counter e (snd (createLocation p now s)) =
     (if e = Location then counter e s + 1 else counter e s)"
  "counter e (snd (createInventoryItem p now s)) =
     (if e = Inventory then counter e s + 1 else counter e s)"
  "counter e (snd (createActivity p now s)) =
     (if e = Activity then counter e s + 1 else counter e s)"
  "counter e (snd (createTask p s)) = (if e = Task then counter e s + 1 else counter e s)"
  "counter e (snd (createMetric p now s)) =
     (if e = Metric then counter e s + 1 else counter e s)"
  using create_counter [of e User p now s] create_counter [of e Region p now s]
    create_counter [of e Location p now s] create_counter [of e Inventory p now s]
    create_counter [of e Activity p now s] create_counter [of e Task p now s]
    create_counter [of e Metric p now s]
  by (simp_all add: eq_commute)

lemmas seed_stage_defs =
  seedUsers_def seedRegions_def seedLocations_def seedInventory_def seedActivities_def
  seedTasks_def seedMetrics_def

lemma ids_ok_seedData: "ids_ok e s \<Longrightarrow> ids_ok e (seedData clk d1 d2 d3 s)"
  by (simp add: seedData_def seed_stage_defs Let_def ids_ok_create_each)

lemma counter_seedData: "counter e (seedData clk d1 d2 d3 s) = counter e s + seed_count e"
  by (cases e) (simp_all add: seedData_def seed_stage_defs Let_def counter_create_each del: counter.simps)

lemma ids_ok_MemStorage: "ids_ok e (MemStorage clk d1 d2 d3)"
  by (simp add: MemStorage_def ids_ok_seedData ids_ok_init)

lemma counter_MemStorage: "counter e (MemStorage clk d1 d2 d3) = 1 + seed_count e"
  by (simp add: MemStorage_def counter_seedData counter_init)

lemma collection_create_each:
  "collection e (snd (createUser p s)) =
     (if e = User then map_set (Num (userId s)) (fst (createUser p s)) (users s)
      else collection e s)"
  "collection e (snd (createRegion p s)) =
     (if e = Region then map_set (Num (regionId s)) (fst (createRegion p s)) (regions s)
      else collection e s)"
  "collection e (snd (createLocation p now s)) =
     (if e = Location
      then map_set (Num (locationId s)) (fst (createLocation p now s)) (locations s)
      else collection e s)"
  "collection e (snd (createInventoryItem p now s)) =
     (if e = Inventory
      then map_set (Num (inventoryId s)) (fst (createInventoryItem p now s)) (inventoryItems s)
      else collection e s)"
  "collection e (snd (createActivity p now s)) =
     (if e = Activity
      then map_set (Num (activityId s)) (fst (createActivity p now s)) (activities s)
      else collection e s)"
  "collection e (snd (createTask p s)) =
     (if e = Task then map_set (Num (taskId s)) (fst (createTask p s)) (tasks s)
      else collection e s)"
  "collection e (snd (createMetric p now s)) =
     (if e = Metric then map_set (Num (metricId s)) (fst (createMetric p now s)) (metrics s)
      else collection e s)"
  by (cases e; simp add: create_defs Let_def)+

lemma seed_stage_collection:
  "e \<noteq> User \<Longrightarrow> collection e (seedUsers s) = collection e s"
  "e \<noteq> Region \<Longrightarrow> collection e (seedRegions s) = collection e s"
  "e \<noteq> Location \<Longrightarrow> collection e (seedLocations clk s) = collection e s"
  "e \<noteq> Inventory \<Longrightarrow> collection e (seedInventory clk s) = collection e s"
  "e \<noteq> Activity \<Longrightarrow> collection e (seedActivities clk s) = collection e s"
  "e \<noteq> Task \<Longrightarrow> collection e (seedTasks d1 d2 d3 s) = collection e s"
  "e \<noteq> Metric \<Longrightarrow> collection e (seedMetrics clk s) = collection e s"
  by (simp_all add: seed_stage_defs Let_def collection_create_each del: collection.simps)

lemma seed_stage_counter:
  "e \<noteq> User \<Longrightarrow> counter e (seedUsers s) = counter e s"
  "e \<noteq> Region \<Longrightarrow> counter e (seedRegions s) = counter e s"
  "e \<noteq> Location \<Longrightarrow> counter e (seedLocations clk s) = counter e s"
  "e \<noteq> Inventory \<Longrightarrow> counter e (seedInventory clk s) = counter e s"
  "e \<noteq> Activity \<Longrightarrow> counter e (seedActivities clk s) = counter e s"
  "e \<noteq> Task \<Longrightarrow> counter e (seedTasks d1 d2 d3 s) = counter e s"
  "e \<noteq> Metric \<Longrightarrow> counter e (seedMetrics clk s) = counter e s"
  by (simp_all add: seed_stage_defs Let_def counter_create_each del: counter.simps)

lemma seeded_tasks:
  "tasks seeded_store =
   [(Num 1,
     [(''title'', JStr ''Weekly tree health inspection''),
      (''description'',
       JStr ''Complete standard health assessment for all trees in sector''),
      (''location'', JStr ''North Region''), (''priority'', JStr ''normal''),
      (''status'', JStr ''pending''), (''category'', JStr ''routine''),
      (''assignedTo'', JNum 2), (''scheduledDate'', JDate 432001000),
      (''id'', JNum 1), (''completed'', JBool False), (''completedAt'', JNull)]),
    (Num 2,
     [(''title'', JStr ''Trail maintenance and clearing''),
      (''description'', JStr ''Clear fallen branches and repair walking paths''),
      (''location'', JStr ''East Region''), (''priority'', JStr ''normal''),
      (''status'', JStr ''pending''), (''category'', JStr ''maintenance''),
      (''assignedTo'', JNum 3), (''scheduledDate'', JDate 604801000),
      (''id'', JNum 2), (''completed'', JBool False), (''completedAt'', JNull)]),
    (Num 3,
     [(''title'', JStr ''Wildlife census preparations''),
      (''description'',
       JStr ''Set up camera traps and prepare for upcoming wildlife count''),
      (''location'', JStr ''All Regions''), (''priority'', JStr ''high''),
      (''status'', JStr ''pending''), (''category'', JStr ''monitoring''),
      (''assignedTo'', JNum 2), (''scheduledDate'', JDate 864001000),
      (''id'', JNum 3), (''completed'', JBool False), (''completedAt'', JNull)])]"
proof -
  define s where "s = seedActivities seed_clock (seedInventory seed_clock
       (seedLocations seed_clock (seedRegions (seedUsers MemStorage_init))))"
  have "collection Task s = collection Task MemStorage_init"
    and "counter Task s = counter Task MemStorage_init"
    unfolding s_def by (simp_all only: seed_stage_collection seed_stage_counter entity.distinct
       not_False_eq_True)
  then have t: "tasks s = []" and c: "taskId s = 1"
    by (simp_all add: MemStorage_init_def)
  have "collection Task seeded_store = collection Task (seedTasks 432001000 604801000 864001000 s)"
    unfolding seeded_store_def MemStorage_def seedData_def s_def
    by (simp only: seed_stage_collection entity.distinct not_False_eq_True)
  then show ?thesis
    by (simp add: seedTasks_def createTask_def Let_def t c object_of_def map_set_def)
qed

lemma seeded_locations:
  "locations seeded_store =
   [(Num 1,
     [(''regionId'', JNum 1), (''name'', JStr ''North Ridge Trail''),
      (''status'', JStr ''healthy''),
      (''coordinates'',
       JObj [(''type'', JStr ''Point''),
             (''coordinates'', JArr [JNum 45.35, JNum (- 122.75)])]),
      (''id'', JNum 1), (''lastUpdated'', JDate 1000)]),
    (Num 2,
     [(''regionId'', JNum 2), (''name'', JStr ''East Forest Boundary''),
      (''status'', JStr ''monitoring''),
      (''coordinates'',
       JObj [(''type'', JStr ''Point''),
             (''coordinates'', JArr [JNum 45.25, JNum (- 122.45)])]),
      (''id'', JNum 2), (''lastUpdated'', JDate 1001)]),
    (Num 3,
     [(''regionId'', JNum 3), (''name'', JStr ''Southern Clearing''),
      (''status'', JStr ''critical''),
      (''coordinates'',
       JObj [(''type'', JStr ''Point''),
             (''coordinates'', JArr [JNum 45.15, JNum (- 122.55)])]),
      (''id'', JNum 3), (''lastUpdated'', JDate 1002)])]"
proof -
  define s where "s = seedRegions (seedUsers MemStorage_init)"
  have "collection Location s = collection Location MemStorage_init"
    and "counter Location s = counter Location MemStorage_init"
    unfolding s_def
    by (simp_all only: seed_stage_collection seed_stage_counter entity.distinct
        not_False_eq_True)
  then have t: "locations s = []" and c: "locationId s = 1"
    by (simp_all add: MemStorage_init_def)
  have "collection Location seeded_store = collection Location (seedLocations seed_clock s)"
    unfolding seeded_store_def MemStorage_def seedData_def s_def
    by (simp only: seed_stage_collection entity.distinct not_False_eq_True)
  then show ?thesis
    by (simp add: seedLocations_def createLocation_def Let_def t c object_of_def map_set_def
        seed_clock_def)
qed

lemma seeded_task_1:
  "getTask (Num 1) seeded_store =
     Some [(''title'', JStr ''Weekly tree health inspection''),
      (''description'',
       JStr ''Complete standard health assessment for all trees in sector''),
      (''location'', JStr ''North Region''), (''priority'', JStr ''normal''),
      (''status'', JStr ''pending''), (''category'', JStr ''routine''),
      (''assignedTo'', JNum 2), (''scheduledDate'', JDate 432001000),
      (''id'', JNum 1), (''completed'', JBool False), (''completedAt'', JNull)]"
  by (simp add: getTask_def map_get_def seeded_tasks)

lemma seeded_metrics:
  "metrics seeded_store =
   [(Num 1,
     [(''name'', JStr ''Forest Coverage''), (''value'', JNum 12450),
      (''unit'', JStr ''ha''), (''previousValue'', JNum 12150),
      (''changePercentage'', JNum 2.4), (''trend'', JStr ''up''),
      (''icon'', JStr ''park''), (''category'', JStr ''coverage''),
      (''id'', JNum 1), (''timestamp'', JDate 1011)]),
    (Num 2,
     [(''name'', JStr ''Tree Species''), (''value'', JNum 78),
      (''unit'', JStr ''species''), (''previousValue'', JNum 73),
      (''changePercentage'', JNum 6.8), (''trend'', JStr ''up''),
      (''icon'', JStr ''eco''), (''category'', JStr ''species''),
      (''id'', JNum 2), (''timestamp'', JDate 1012)]),
    (Num 3,
     [(''name'', JStr ''Fire Risk Index''), (''value'', JNum 24),
      (''unit'', JStr []), (''previousValue'', JNum 21),
      (''changePercentage'', JNum 12), (''trend'', JStr ''up''),
      (''icon'', JStr ''local_fire_department''),
      (''category'', JStr ''risk''), (''id'', JNum 3),
      (''timestamp'', JDate 1013)]),
    (Num 4,
     [(''name'', JStr ''Health Index''), (''value'', JNum 87.5),
      (''unit'', JStr ''%''), (''previousValue'', JNum 84.8),
      (''changePercentage'', JNum 3.2), (''trend'', JStr ''up''),
      (''icon'', JStr ''monitor_heart''), (''category'', JStr ''health''),
      (''id'', JNum 4), (''timestamp'', JDate 1014)])]"
proof -
  define s where "s = seedTasks 432001000 604801000 864001000
    (seedActivities seed_clock (seedInventory seed_clock
       (seedLocations seed_clock (seedRegions (seedUsers MemStorage_init)))))"
  have "collection Metric s = collection Metric MemStorage_init"
    and "counter Metric s = counter Metric MemStorage_init"
    unfolding s_def
    by (simp_all only: seed_stage_collection seed_stage_counter entity.distinct
        not_False_eq_True)
  then have t: "metrics s = []" and c: "metricId s = 1"
    by (simp_all add: MemStorage_init_def)
  have "metrics seeded_store = metrics (seedMetrics seed_clock s)"
    by (simp add: seeded_store_def MemStorage_def seedData_def s_def)
  then show ?thesis
    by (simp add: seedMetrics_def createMetric_def Let_def t c object_of_def map_set_def
        seed_clock_def)
qed

lemma seeded_counters:
  "userId seeded_store = 4" "regionId seeded_store = 5" "locationId seeded_store = 4"
  "inventoryId seeded_store = 5" "activityId seeded_store = 5" "taskId seeded_store = 4"
  "metricId seeded_store = 5"
  using counter_MemStorage [of User] counter_MemStorage [of Region]
    counter_MemStorage [of Location] counter_MemStorage [of Inventory]
    counter_MemStorage [of Activity] counter_MemStorage [of Task] counter_MemStorage [of Metric]
  by (simp_all add: seeded_store_def)

lemma seeded_inventoryId: "inventoryId seeded_store = 5"
  by (rule seeded_counters)

subsection \<open>Runs of calls\<close>

lemma run_counter: "counter e (run cs s) = counter e s + int (creates e cs)"
  unfolding run_def
proof (induction cs arbitrary: s)
  case Nil
  then show ?case by simp
next
  case (Cons c cs)
  then show ?case
    by (cases c) (simp_all add: create_counter update_counter delete_counter complete_counter)
qed

lemma assigned_below_counter:
  "Some (JNum (of_int i)) \<in> set (assigned e cs s) \<Longrightarrow> i < counter e (run cs s)"
  by (auto simp: assigned_closed run_counter)

lemma assigned_from_counter:
  "Some (JNum (of_int i)) \<in> set (assigned e cs s) \<Longrightarrow> counter e s \<le> i"
  by (auto simp: assigned_closed)

subsection \<open>Create and update, field by field\<close>

lemma create_get: "get e (Num (counter e s)) (snd (create e p now s)) = Some (fst (create e p now s))"
  by (simp add: get_collection create_collection)

lemma fld_server_field:
  "(k, v) \<in> set (server_fields e now) \<Longrightarrow> fld (server_fields e now) k = Some v"
  by (cases e) (auto simp: fld_def)

lemma fld_server_field_None:
  "k \<notin> fst ` set (server_fields e now) \<Longrightarrow> fld (server_fields e now) k = None"
  by (cases e) (auto simp: fld_def)

lemma create_fields:
  "fld (fst (create e p now s)) k =
     (case fld (server_fields e now) k of
        Some v \<Rightarrow> Some v
      | None \<Rightarrow> if k = ''id'' then Some (JNum (of_int (counter e s))) else fld p k)"
  by (simp add: create_result fld_append fld_Cons split: option.splits)

lemma update_absent: "get e k s = None \<Longrightarrow> update e k p now s = (None, s)"
  by (cases e) (simp_all add: update_defs get_defs)

lemma update_fields:
  "get e k s = Some old \<Longrightarrow>
   \<exists>r. fst (update e k p now s) = Some r \<and>
       (\<forall>f. fld r f =
          (if refreshes e \<and> f = ''lastUpdated'' then Some (JDate now)
           else case fld p f of Some v \<Rightarrow> Some v | None \<Rightarrow> fld old f))"
  by (auto simp: update_result fld_append fld_Cons split: option.splits)

lemma update_get:
  "fst (update e k p now s) = Some r \<Longrightarrow>
   get e' k' (snd (update e k p now s)) = (if e' = e \<and> k' = k then Some r else get e' k' s)"
  by (simp add: get_collection update_collection)

subsection \<open>Completing a task; parsing path segments\<close>

lemma complete_absent: "getTask k s = None \<Longrightarrow> completeTask k now s = (None, s)"
  by (simp add: completeTask_def getTask_def)

lemma complete_present:
  "getTask k s = Some t \<Longrightarrow>
   completeTask k now s =
     (Some (object_of (t @ [(''completed'', JBool True), (''status'', JStr ''completed''),
                            (''completedAt'', JDate now)])),
      s\<lparr>tasks := map_set k
          (object_of (t @ [(''completed'', JBool True), (''status'', JStr ''completed''),
                            (''completedAt'', JDate now)])) (tasks s)\<rparr>)"
  by (simp add: completeTask_def getTask_def Let_def)

lemma parseInt_999: "parseInt ''999'' = Num 999"
  by (simp add: parseInt_def is_ws_def is_digit_def digit_val_def digits_value_def Let_def)

lemma parseInt_1: "parseInt ''1'' = Num 1"
  by (simp add: parseInt_def is_ws_def is_digit_def digit_val_def digits_value_def Let_def)

subsection \<open>What parsing keeps; the task handlers\<close>

lemma parse_field_keys: "fst ` set (snd (parse_field k f v)) \<subseteq> {k}"
  by (cases v) (simp_all add: parse_field_def)

lemma parse_fields_out:
  "snd (parse_fields shape input) =
     concat (map (\<lambda>kf. snd (parse_field (fst kf) (snd kf) (fld input (fst kf)))) shape)"
  by (simp add: parse_fields_def Let_def comp_def case_prod_unfold)

lemma parse_fields_keys: "fst ` set (snd (parse_fields shape input)) \<subseteq> fst ` set shape"
  unfolding parse_fields_out
proof (induction shape)
  case Nil
  then show ?case by simp
next
  case (Cons a shape)
  have "fst ` set (snd (parse_field (fst a) (snd a) (fld input (fst a)))) \<subseteq> {fst a}"
    by (rule parse_field_keys)
  with Cons show ?case
    by (simp add: image_Un) blast
qed

lemma parse_keys:
  assumes "parse shape body = Inr d"
  shows "fst ` set d \<subseteq> fst ` set shape"
proof -
  from assms obtain input where "parse_fields shape input = ([], d)"
    by (auto simp: parse_def split: jsval.splits prod.splits list.splits)
  then show ?thesis
    using parse_fields_keys [of shape input] by simp
qed

lemma partial_keys: "fst ` set (partial shape) = fst ` set shape"
  by (force simp: partial_def)

lemma fld_absent: "k \<notin> fst ` set ob \<Longrightarrow> fld ob k = None"
  by (simp add: fld_def map_of_eq_None_iff)

lemma insertTaskSchema_eval:
  "insertTaskSchema =
     [(''title'', \<lparr>ztype = ZString, znullable = False, zoptional = False\<rparr>),
      (''description'', \<lparr>ztype = ZString, znullable = True, zoptional = True\<rparr>),
      (''location'', \<lparr>ztype = ZString, znullable = False, zoptional = False\<rparr>),
      (''priority'', \<lparr>ztype = ZString, znullable = False, zoptional = True\<rparr>),
      (''status'', \<lparr>ztype = ZString, znullable = False, zoptional = True\<rparr>),
      (''category'', \<lparr>ztype = ZString, znullable = False, zoptional = False\<rparr>),
      (''assignedTo'', \<lparr>ztype = ZNumber, znullable = True, zoptional = True\<rparr>),
      (''scheduledDate'', \<lparr>ztype = ZDate, znullable = False, zoptional = False\<rparr>)]"
  by (simp add: insertTaskSchema_def tasks_table_def column_defs)

lemma task_shape_excludes:
  "''completed'' \<notin> fst ` set insertTaskSchema" "''completedAt'' \<notin> fst ` set insertTaskSchema"
  by (simp_all add: insertTaskSchema_eval)

lemma parsed_task_excludes:
  assumes "parse insertTaskSchema body = Inr d \<or> parse (partial insertTaskSchema) body = Inr d"
  shows "fld d ''completed'' = None" and "fld d ''completedAt'' = None"
proof -
  from assms have "fst ` set d \<subseteq> fst ` set insertTaskSchema"
    using parse_keys [of insertTaskSchema body d]
      parse_keys [of "partial insertTaskSchema" body d]
    by (auto simp only: partial_keys)
  then have "''completed'' \<notin> fst ` set d" and "''completedAt'' \<notin> fst ` set d"
    using task_shape_excludes by blast+
  then show "fld d ''completed'' = None" and "fld d ''completedAt'' = None"
    by (simp_all add: fld_absent)
qed

lemma createTask_fields:
  "fld (fst (createTask p s)) ''completed'' = Some (JBool False)"
  "fld (fst (createTask p s)) ''completedAt'' = Some JNull"
  by (simp_all add: createTask_def Let_def fld_append fld_Cons)

lemma createTask_get:
  "getTask k (snd (createTask p s)) =
     (if k = Num (taskId s) then Some (fst (createTask p s)) else getTask k s)"
  by (simp add: createTask_def getTask_def Let_def)

lemma updateTask_get:
  "getTask k' (snd (updateTask k p s)) =
     (case getTask k s of None \<Rightarrow> getTask k' s
      | Some old \<Rightarrow> if k' = k then Some (object_of (old @ p)) else getTask k' s)"
  by (simp add: updateTask_def getTask_def Let_def split: option.splits)

lemma updateTask_keeps:
  assumes p: "fld p ''completed'' = None" "fld p ''completedAt'' = None"
    and g: "getTask k' (snd (updateTask k p s)) = Some r'"
  shows "\<exists>r. getTask k' s = Some r \<and> fld r' ''completed'' = fld r ''completed''
            \<and> fld r' ''completedAt'' = fld r ''completedAt''"
  using g p by (auto simp: updateTask_get fld_append split: option.splits if_splits)

lemma post_tasks_result:
  "post_tasks body s =
     (case parse insertTaskSchema body of
        Inl issues \<Rightarrow> (handleZodError issues, s)
      | Inr d \<Rightarrow> (Json 201 (JObj (fst (createTask d s))), snd (createTask d s)))"
  by (simp add: post_tasks_def split: sum.splits prod.splits)

lemma put_tasks_id_store:
  "snd (put_tasks_id seg body s) =
     (case parse (partial insertTaskSchema) body of
        Inl issues \<Rightarrow> s
      | Inr d \<Rightarrow> snd (updateTask (parseInt seg) d s))"
  by (simp add: put_tasks_id_def Let_def split: sum.splits prod.splits option.splits)

lemma parse_task_body:
  "parse insertTaskSchema
     (JObj [(''title'', JStr ''Survey''), (''location'', JStr ''North Region''),
            (''category'', JStr ''routine''), (''scheduledDate'', JDate 9000),
            (''completed'', JBool True), (''completedAt'', JDate 5)]) =
   Inr [(''title'', JStr ''Survey''), (''location'', JStr ''North Region''),
        (''category'', JStr ''routine''), (''scheduledDate'', JDate 9000)]"
  by (simp add: insertTaskSchema_eval parse_def parse_fields_def parse_field_def fld_def)

lemma parse_task_partial_body:
  "parse (partial insertTaskSchema)
     (JObj [(''status'', JStr ''cancelled''), (''completed'', JBool True),
            (''completedAt'', JDate 5)]) =
   Inr [(''status'', JStr ''cancelled'')]"
  by (simp add: insertTaskSchema_eval partial_def parse_def parse_fields_def parse_field_def
      fld_def)

subsection \<open>Handlers on an id without a record\<close>

lemmas get_handler_defs =
  get_users_id_def get_regions_id_def get_locations_id_def get_inventory_id_def
  get_activities_id_def get_tasks_id_def get_metrics_id_def

lemmas put_handler_defs =
  put_users_id_def put_regions_id_def put_locations_id_def put_inventory_id_def
  put_activities_id_def put_tasks_id_def put_metrics_id_def

lemmas delete_handler_defs =
  delete_users_id_def delete_regions_id_def delete_locations_id_def delete_inventory_id_def
  delete_activities_id_def delete_tasks_id_def delete_metrics_id_def

lemma get_by_id_absent:
  "get e (parseInt seg) s = None \<Longrightarrow>
   get_by_id e seg s = (Json 404 (JObj [(''error'', JStr (not_found e))]), s)"
  by (cases e) (simp_all add: get_handler_defs error_body_def)

lemma delete_absent: "get e k s = None \<Longrightarrow> delete e k s = (False, s)"
  by (cases e) (simp_all add: delete_defs get_defs map_delete_absent)

lemma delete_by_id_absent:
  assumes "get e (parseInt seg) s = None"
  shows "delete_by_id e seg s = (Json 404 (JObj [(''error'', JStr (not_found e))]), s)"
  using delete_absent [OF assms]
  by (cases e) (simp_all add: delete_handler_defs error_body_def)

lemma put_by_id_absent:
  assumes "get e (parseInt seg) s = None"
  shows "put_by_id e seg body now s =
     (case parse (partial (insertSchema e)) body of
        Inl issues \<Rightarrow> (Json 400 (JObj [(''error'', JStr (fromZodError issues))]), s)
      | Inr d \<Rightarrow> (Json 404 (JObj [(''error'', JStr (not_found e))]), s))"
  using update_absent [OF assms]
  by (cases e)
     (simp_all add: put_handler_defs error_body_def handleZodError_def split: sum.splits)

lemma complete_by_id_absent:
  assumes "getTask (parseInt seg) s = None"
  shows "put_tasks_id_complete seg now s =
           (Json 404 (JObj [(''error'', JStr ''Task not found'')]), s)"
  using complete_absent [OF assms] by (simp add: put_tasks_id_complete_def error_body_def)

lemma keys_numeric_get: "keys_numeric s \<Longrightarrow> get e NaN s = None"
  by (cases e) (simp_all add: keys_numeric_def entities_def get_defs NaN_get)

lemma parseInt_abc: "parseInt ''abc'' = NaN"
  by (simp add: parseInt_def is_ws_def is_digit_def digit_val_def digits_value_def Let_def)

lemma insertUserSchema_eval:
  "insertUserSchema =
     [(''username'', \<lparr>ztype = ZString, znullable = False, zoptional = False\<rparr>),
      (''password'', \<lparr>ztype = ZString, znullable = False, zoptional = False\<rparr>),
      (''fullName'', \<lparr>ztype = ZString, znullable = False, zoptional = False\<rparr>),
      (''email'', \<lparr>ztype = ZString, znullable = False, zoptional = False\<rparr>),
      (''role'', \<lparr>ztype = ZString, znullable = False, zoptional = True\<rparr>),
      (''profileImage'', \<lparr>ztype = ZString, znullable = True, zoptional = True\<rparr>)]"
  by (simp add: insertUserSchema_def users_table_def column_defs)

lemma parse_role_only:
  "parse (partial insertUserSchema) (JObj [(''role'', JStr ''manager'')]) =
     Inr [(''role'', JStr ''manager'')]"
  by (simp add: insertUserSchema_eval partial_def parse_def parse_fields_def parse_field_def
      fld_def)

lemma entry_ok_not_NaN: "list_all (entry_ok c) m \<Longrightarrow> NaN \<notin> fst ` set m"
  by (induction m) auto

lemma ids_ok_keys_numeric:
  assumes "\<And>e. ids_ok e s"
  shows "keys_numeric s"
  using assms [of User] assms [of Region] assms [of Location] assms [of Inventory]
    assms [of Activity] assms [of Task] assms [of Metric]
  by (auto simp: keys_numeric_def entities_def ids_ok_def dest: entry_ok_not_NaN)

lemma keys_numeric_seeded: "keys_numeric seeded_store"
  by (rule ids_ok_keys_numeric) (simp add: seeded_store_def ids_ok_MemStorage)

lemma entry_ok_beyond: "list_all (entry_ok c) m \<Longrightarrow> c \<le> i \<Longrightarrow> Num i \<notin> fst ` set m"
  by (induction m) auto

lemma ids_ok_beyond: "ids_ok e s \<Longrightarrow> counter e s \<le> i \<Longrightarrow> get e (Num i) s = None"
  by (auto simp: get_collection map_get_def map_of_eq_None_iff ids_ok_def
      dest: entry_ok_beyond)

lemma keys_numeric_run:
  assumes "list_all call_typed cs"
  shows "keys_numeric (run cs MemStorage_init)"
    and "keys_numeric (run cs (MemStorage clk d1 d2 d3))"
  using assms
  by (auto intro!: ids_ok_keys_numeric ids_ok_run ids_ok_init ids_ok_MemStorage)

lemma seeded_user_999: "getUser (Num 999) seeded_store = None"
  using ids_ok_beyond [of User seeded_store 999]
  by (simp add: seeded_store_def ids_ok_MemStorage counter_MemStorage)

lemma parseInt_0: "parseInt ''0'' = Num 0"
  by (simp add: parseInt_def is_ws_def is_digit_def digit_val_def digits_value_def Let_def)

lemma parseInt_2: "parseInt ''2'' = Num 2"
  by (simp add: parseInt_def is_ws_def is_digit_def digit_val_def digits_value_def Let_def)

subsection \<open>Slices, sorting and the list queries\<close>

lemma set_slice0: "set (slice0 limit xs) \<subseteq> set xs"
  by (cases limit) (auto dest: in_set_takeD)

lemma sorted_slice0: "sorted (map f xs) \<Longrightarrow> sorted (map f (slice0 limit xs))"
  by (cases limit) (simp_all add: sorted_map)

lemma falsy_bool: "is_bool v \<Longrightarrow> \<not> truthy v \<Longrightarrow> v = Some (JBool False)"
  by (auto simp: is_bool_def split: option.splits jsval.splits)

lemma date_value: "is_date v \<Longrightarrow> v = Some (JDate (getTime v))"
  by (auto simp: is_date_def getTime_def split: option.splits jsval.splits)

lemma fold_push:
  "fold (\<lambda>c acc. let xs = g c in if length xs > 0 then acc @ [xs ! 0] else acc) cs acc =
     acc @ concat (map (\<lambda>c. take 1 (g c)) cs)"
proof (induction cs arbitrary: acc)
  case Nil
  then show ?case by simp
next
  case (Cons c cs)
  have "(if length (g c) > 0 then acc @ [g c ! 0] else acc) = acc @ take 1 (g c)"
    by (cases "g c") simp_all
  then show ?case
    using Cons.IH by (simp add: Let_def)
qed

lemma getLatestMetrics_concat:
  "getLatestMetrics s =
     concat (map (\<lambda>category.
        take 1 (sort_key (\<lambda>a. - getTime (fld a ''timestamp''))
                  (filter (\<lambda>metric. fld metric ''category'' = Some (JStr category))
                     (map_values (metrics s)))))
       categories)"
  unfolding getLatestMetrics_def by (subst fold_push) simp

lemma subseq_firsts:
  assumes "\<And>c x. x \<in> set (g c) \<Longrightarrow> f x = h c"
  shows "subseq (map f (concat (map (\<lambda>c. take 1 (g c)) cs))) (map h cs)"
proof (induction cs)
  case Nil
  then show ?case by simp
next
  case (Cons c cs)
  show ?case
  proof (cases "g c")
    case Nil
    then show ?thesis using Cons by auto
  next
    case (Cons x xs)
    then have "f x = h c" using assms [of x c] by simp
    then show ?thesis using Cons Cons.IH by simp
  qed
qed

lemma sorted_key_head:
  assumes "sort_key f xs = y # ys" and "x \<in> set xs"
  shows "f y \<le> f x"
proof -
  have "sorted (map f (y # ys))"
    using sorted_sort_key [of f xs] assms(1) by simp
  moreover have "x \<in> set (y # ys)"
    using set_sort [of f xs] assms by simp
  ultimately show ?thesis by auto
qed

lemma subseq_subset: "subseq xs ys \<Longrightarrow> set xs \<subseteq> set ys"
  by (induction rule: list_emb.induct) auto

lemma subseq_distinct: "subseq xs ys \<Longrightarrow> distinct ys \<Longrightarrow> distinct xs"
  by (induction rule: list_emb.induct) (auto dest: subseq_subset)

lemma latest_member:
  assumes "m \<in> set (getLatestMetrics s)"
  obtains c ms where "c \<in> set categories"
    and "sort_key (\<lambda>a. - getTime (fld a ''timestamp''))
           (filter (\<lambda>metric. fld metric ''category'' = Some (JStr c))
              (map_values (metrics s))) = m # ms"
proof -
  from assms obtain c where c: "c \<in> set categories"
    and m: "m \<in> set (take 1 (sort_key (\<lambda>a. - getTime (fld a ''timestamp''))
           (filter (\<lambda>metric. fld metric ''category'' = Some (JStr c))
              (map_values (metrics s)))))"
    unfolding getLatestMetrics_concat by auto
  let ?S = "sort_key (\<lambda>a. - getTime (fld a ''timestamp''))
           (filter (\<lambda>metric. fld metric ''category'' = Some (JStr c))
              (map_values (metrics s)))"
  from m obtain ms where "?S = m # ms"
    by (cases ?S) simp_all
  with c that show thesis by blast
qed

lemma latest_present:
  assumes c: "c \<in> set categories"
    and x: "x \<in> set (getMetrics s)" "fld x ''category'' = Some (JStr c)"
  shows "\<exists>m \<in> set (getLatestMetrics s). fld m ''category'' = Some (JStr c)"
proof -
  let ?F = "filter (\<lambda>metric. fld metric ''category'' = Some (JStr c)) (map_values (metrics s))"
  let ?S = "sort_key (\<lambda>a. - getTime (fld a ''timestamp'')) ?F"
  have "x \<in> set ?S"
    using x by (simp add: getMetrics_def)
  then obtain m ms where S: "?S = m # ms"
    by (cases ?S) auto
  then have "m \<in> set ?S" by simp
  then have cat: "fld m ''category'' = Some (JStr c)" by simp
  have "m \<in> set (take 1 ?S)" using S by simp
  then have "m \<in> set (getLatestMetrics s)"
    unfolding getLatestMetrics_concat using c by auto
  with cat show ?thesis by blast
qed

lemma seeded_tasks_typed: "tasks_typed seeded_store"
  by (simp add: tasks_typed_def getTasks_def map_values_def seeded_tasks fld_def is_bool_def
      is_date_def)

lemma seeded_upcoming_all_but_last:
  "map (\<lambda>t. fld t ''id'') (getUpcomingTasks (Num (- 1)) 2000 seeded_store) =
     [Some (JNum 1), Some (JNum 2)]"
  by (simp add: getUpcomingTasks_def map_values_def seeded_tasks fld_def getTime_def)

lemma seeded_upcoming_later:
  "map (\<lambda>t. fld t ''id'') (getUpcomingTasks (Num 1) 500000000 seeded_store) =
     [Some (JNum 2)]"
  by (simp add: getUpcomingTasks_def map_values_def seeded_tasks fld_def getTime_def)

lemma metrics_store_eval:
  "getMetrics metrics_store =
     map snd (metrics seeded_store) @
     [[(''name'', JStr ''Soil acidity''), (''value'', JNum 6.5), (''unit'', JStr ''pH''),
       (''category'', JStr ''soil''), (''id'', JNum 5), (''timestamp'', JDate 4000)],
      [(''name'', JStr ''Health Index''), (''value'', JNum 90), (''unit'', JStr ''%''),
       (''category'', JStr ''health''), (''id'', JNum 6), (''timestamp'', JDate 5000)]]"
  by (simp add: metrics_store_def getMetrics_def map_values_def createMetric_def Let_def
      seeded_metrics seeded_counters object_of_def map_set_def)

lemma metrics_store_typed: "metrics_typed metrics_store"
  by (simp add: metrics_typed_def metrics_store_eval seeded_metrics fld_def is_date_def)

lemma metrics_store_latest:
  "map (\<lambda>m. fld m ''id'') (getLatestMetrics metrics_store) =
     [Some (JNum 1), Some (JNum 2), Some (JNum 3), Some (JNum 6)]"
proof -
  have "getLatestMetrics metrics_store =
     concat (map (\<lambda>category.
        take 1 (sort_key (\<lambda>a. - getTime (fld a ''timestamp''))
                  (filter (\<lambda>metric. fld metric ''category'' = Some (JStr category))
                     (getMetrics metrics_store))))
       categories)"
    by (simp add: getLatestMetrics_concat getMetrics_def)
  then show ?thesis
    by (simp add: categories_def metrics_store_eval seeded_metrics fld_def getTime_def)
qed

section \<open>C1: a negative quantity posted to /api/inventory\<close>

text \<open>
  C1 says that POST /api/inventory with
  \<open>{type: "plant", name: "Oak Saplings", quantity: -5, unit: "units", status: "available"}\<close>
  is answered with status 400 and a message about the quantity not being negative.
  The insert schema of the inventory table has no such rule for \<open>quantity\<close>, so the body
  passes validation: on the seeded store at time 2000 the answer is 201 with the created
  record, quantity \<open>-5\<close> included.
\<close>

theorem post_inventory_negative_quantity_is_created:
  "fst (post_inventory
          (JObj [(''type'', JStr ''plant''), (''name'', JStr ''Oak Saplings''),
                 (''quantity'', JNum (- 5)), (''unit'', JStr ''units''),
                 (''status'', JStr ''available'')]) 2000 seeded_store) =
     Json 201
       (JObj [(''type'', JStr ''plant''), (''name'', JStr ''Oak Saplings''),
              (''quantity'', JNum (- 5)), (''unit'', JStr ''units''),
              (''status'', JStr ''available''), (''id'', JNum 5),
              (''lastUpdated'', JDate 2000)])
   \<and> status (fst (post_inventory
          (JObj [(''type'', JStr ''plant''), (''name'', JStr ''Oak Saplings''),
                 (''quantity'', JNum (- 5)), (''unit'', JStr ''units''),
                 (''status'', JStr ''available'')]) 2000 seeded_store)) \<noteq> 400"
  by (simp add: post_oak_saplings seeded_inventoryId)

text \<open>
  C1 as amended: for this input, on every store and at every time, the request is
  answered with 201 and the created record: the posted fields, quantity \<open>-5\<close> among
  them, the next inventory id and \<open>lastUpdated\<close> set to the current time; the record
  is stored under that id.
\<close>

theorem post_inventory_oak_saplings_created:
  "post_inventory
     (JObj [(''type'', JStr ''plant''), (''name'', JStr ''Oak Saplings''),
            (''quantity'', JNum (- 5)), (''unit'', JStr ''units''),
            (''status'', JStr ''available'')]) now s =
   (Json 201
      (JObj [(''type'', JStr ''plant''), (''name'', JStr ''Oak Saplings''),
             (''quantity'', JNum (- 5)), (''unit'', JStr ''units''),
             (''status'', JStr ''available''),
             (''id'', JNum (of_int (inventoryId s))), (''lastUpdated'', JDate now)]),
    s\<lparr>inventoryId := inventoryId s + 1,
      inventoryItems :=
        map_set (Num (inventoryId s))
          [(''type'', JStr ''plant''), (''name'', JStr ''Oak Saplings''),
           (''quantity'', JNum (- 5)), (''unit'', JStr ''units''),
           (''status'', JStr ''available''),
           (''id'', JNum (of_int (inventoryId s))), (''lastUpdated'', JDate now)]
          (inventoryItems s)\<rparr>)"
  by (simp add: post_oak_saplings createInventoryItem_def object_of_def Let_def)

section \<open>C2: ids are positive, unique, increasing and never reused\<close>

text \<open>
  C2: for every entity \<open>e\<close> and every sequence \<open>cs\<close> of creates, updates, deletes and
  completions (update payloads of the partial insert types, which have no \<open>id\<close>),
  run on the empty store of the constructor or on the seeded store:
  the ids that the creates of \<open>e\<close> return are \<open>1, 2, 3, \<dots>\<close> on the empty store and
  \<open>n + 1, n + 2, \<dots>\<close> on the store seeded with \<open>n\<close> records of \<open>e\<close>, so each is
  greater than all ids assigned before it;
  in the store reached, the keys of the collection are positive integers below the
  counter, no key occurs twice, and each record carries its key as its id;
  every id assigned so far is positive and below the counter, and no later create,
  whatever calls come before it, returns an id below the counter: an id, once assigned,
  is not assigned again, whether its record was deleted or not.
\<close>

theorem ids_positive_unique_increasing:
  assumes typed: "list_all call_typed cs"
    and start: "s0 = MemStorage_init \<or> s0 = MemStorage clk d1 d2 d3"
  shows "assigned e cs MemStorage_init =
           map (\<lambda>i. Some (JNum (of_int i))) [1 .. int (creates e cs)]
     \<and> assigned e cs (MemStorage clk d1 d2 d3) =
           map (\<lambda>i. Some (JNum (of_int i)))
             [seed_count e + 1 .. seed_count e + int (creates e cs)]
     \<and> ids_ok e (run cs s0)
     \<and> (\<forall>i. Some (JNum (of_int i)) \<in> set (assigned e cs s0) \<longrightarrow>
              0 < i \<and> i < counter e (run cs s0))
     \<and> (\<forall>i cs'. i < counter e (run cs s0) \<longrightarrow>
              Some (JNum (of_int i)) \<notin> set (assigned e cs' (run cs s0)))"
proof -
  have ok0: "ids_ok e s0"
    using start by (auto simp: ids_ok_init ids_ok_MemStorage)
  have pos: "0 < counter e s0"
    using ok0 by (simp add: ids_ok_def)
  have a: "assigned e cs MemStorage_init =
           map (\<lambda>i. Some (JNum (of_int i))) [1 .. int (creates e cs)]"
    by (simp add: assigned_closed counter_init)
  have b: "assigned e cs (MemStorage clk d1 d2 d3) =
           map (\<lambda>i. Some (JNum (of_int i)))
             [seed_count e + 1 .. seed_count e + int (creates e cs)]"
    by (simp add: assigned_closed counter_MemStorage algebra_simps)
  have c: "ids_ok e (run cs s0)"
    using ok0 typed by (rule ids_ok_run)
  have d: "\<forall>i. Some (JNum (of_int i)) \<in> set (assigned e cs s0) \<longrightarrow>
              0 < i \<and> i < counter e (run cs s0)"
    using pos by (auto dest: assigned_below_counter assigned_from_counter)
  have e: "\<forall>i cs'. i < counter e (run cs s0) \<longrightarrow>
              Some (JNum (of_int i)) \<notin> set (assigned e cs' (run cs s0))"
    by (auto dest: assigned_from_counter)
  from a b c d e show ?thesis by blast
qed

text \<open>
  An instance: a task is created, deleted, and another one created and updated. The
  second task gets id 2 on the empty store (5 on the seeded one), not the id of the
  deleted first one.
\<close>

theorem ids_positive_unique_increasing_witness:
  "list_all call_typed
     [Create Task [(''title'', JStr ''A'')] 0, Delete Task (Num 1),
      Create Task [(''title'', JStr ''B'')] 0, Update Task (Num 2) [(''title'', JStr ''C'')] 0]
   \<and> assigned Task
       [Create Task [(''title'', JStr ''A'')] 0, Delete Task (Num 1),
        Create Task [(''title'', JStr ''B'')] 0, Update Task (Num 2) [(''title'', JStr ''C'')] 0]
       MemStorage_init = [Some (JNum 1), Some (JNum 2)]
   \<and> assigned Task
       [Create Task [(''title'', JStr ''A'')] 0, Delete Task (Num 1),
        Create Task [(''title'', JStr ''B'')] 0, Update Task (Num 2) [(''title'', JStr ''C'')] 0]
       seeded_store = [Some (JNum 4), Some (JNum 5)]
   \<and> ids_ok Task (run
       [Create Task [(''title'', JStr ''A'')] 0, Delete Task (Num 1),
        Create Task [(''title'', JStr ''B'')] 0, Update Task (Num 2) [(''title'', JStr ''C'')] 0]
       MemStorage_init)
   \<and> map fst (tasks (run
       [Create Task [(''title'', JStr ''A'')] 0, Delete Task (Num 1),
        Create Task [(''title'', JStr ''B'')] 0, Update Task (Num 2) [(''title'', JStr ''C'')] 0]
       MemStorage_init)) = [Num 2]"
  using ids_positive_unique_increasing
    [of "[Create Task [(''title'', JStr ''A'')] 0, Delete Task (Num 1),
          Create Task [(''title'', JStr ''B'')] 0, Update Task (Num 2) [(''title'', JStr ''C'')] 0]"
        MemStorage_init seed_clock 432001000 604801000 864001000 Task]
  by (simp add: seeded_store_def fld_def upto_rec1)
     (simp add: run_def createTask_def deleteTask_def updateTask_def MemStorage_init_def
        map_set_def map_delete_def map_get_def map_has_def object_of_def Let_def)

section \<open>C7: create, then get\<close>

text \<open>
  C7: for every entity \<open>e\<close>, every payload \<open>p\<close>, time and store, the record \<open>r\<close> that
  create returns is the one get returns for the returned id; its \<open>id\<close> is the id
  assigned (the counter's value), every field the storage layer assigns (\<open>lastUpdated\<close>
  or \<open>timestamp\<close> set to the current time, \<open>completed = false\<close> and
  \<open>completedAt = null\<close>, where the entity has them) has the assigned value whatever the
  payload says, and every other field is the payload's: \<open>r\<close> is the payload merged with
  the server-assigned fields.
\<close>

theorem create_then_get:
  "create e p now s = (r, s') \<Longrightarrow>
     get e (Num (counter e s)) s' = Some r
   \<and> fld r ''id'' = Some (JNum (of_int (counter e s)))
   \<and> (\<forall>(k, v) \<in> set (server_fields e now). fld r k = Some v)
   \<and> (\<forall>k. k \<noteq> ''id'' \<and> k \<notin> fst ` set (server_fields e now) \<longrightarrow> fld r k = fld p k)
   \<and> fld r = fld (p @ (''id'', JNum (of_int (counter e s))) # server_fields e now)"
proof -
  assume c: "create e p now s = (r, s')"
  then have r: "r = fst (create e p now s)" and s': "s' = snd (create e p now s)"
    by simp_all
  have "get e (Num (counter e s)) s' = Some r"
    unfolding r s' by (rule create_get)
  moreover have "fld r ''id'' = Some (JNum (of_int (counter e s)))"
    unfolding r by (rule create_id)
  moreover have "\<forall>(k, v) \<in> set (server_fields e now). fld r k = Some v"
    unfolding r by (auto simp: create_fields fld_server_field)
  moreover have "\<forall>k. k \<noteq> ''id'' \<and> k \<notin> fst ` set (server_fields e now) \<longrightarrow> fld r k = fld p k"
    unfolding r by (auto simp: create_fields fld_server_field_None)
  moreover have "fld r = fld (p @ (''id'', JNum (of_int (counter e s))) # server_fields e now)"
    unfolding r by (simp add: create_result)
  ultimately show ?thesis by blast
qed

text \<open>
  An instance: a task created on the seeded store from a payload that itself supplies
  \<open>id\<close>, \<open>completed\<close> and \<open>completedAt\<close>; the supplied values are gone.
\<close>

theorem create_then_get_witness:
  "create Task
     [(''title'', JStr ''Survey''), (''scheduledDate'', JDate 9000), (''id'', JNum 77),
      (''completed'', JBool True), (''completedAt'', JDate 5)] 2000 seeded_store =
     ([(''title'', JStr ''Survey''), (''scheduledDate'', JDate 9000), (''id'', JNum 4),
       (''completed'', JBool False), (''completedAt'', JNull)],
      snd (create Task
        [(''title'', JStr ''Survey''), (''scheduledDate'', JDate 9000), (''id'', JNum 77),
         (''completed'', JBool True), (''completedAt'', JDate 5)] 2000 seeded_store))
   \<and> get Task (Num 4)
        (snd (create Task
          [(''title'', JStr ''Survey''), (''scheduledDate'', JDate 9000), (''id'', JNum 77),
           (''completed'', JBool True), (''completedAt'', JDate 5)] 2000 seeded_store)) =
       Some [(''title'', JStr ''Survey''), (''scheduledDate'', JDate 9000), (''id'', JNum 4),
             (''completed'', JBool False), (''completedAt'', JNull)]"
proof -
  let ?p = "[(''title'', JStr ''Survey''), (''scheduledDate'', JDate 9000), (''id'', JNum 77),
      (''completed'', JBool True), (''completedAt'', JDate 5)]"
  let ?r = "[(''title'', JStr ''Survey''), (''scheduledDate'', JDate 9000), (''id'', JNum 4),
       (''completed'', JBool False), (''completedAt'', JNull)]"
  have c: "create Task ?p 2000 seeded_store = (?r, snd (create Task ?p 2000 seeded_store))"
    by (simp add: createTask_def object_of_def Let_def seeded_counters)
  from create_then_get [OF c] show ?thesis
    using c by (simp add: seeded_counters)
qed

section \<open>C8: update changes the supplied fields only\<close>

text \<open>
  C8: for every entity \<open>e\<close> and every id \<open>k\<close> with a record \<open>old\<close>, update with
  the partial payload \<open>p\<close> returns a record \<open>r\<close> and stores it under \<open>k\<close>; a field of
  \<open>r\<close> is the payload's where the payload has it and the old record's where not,
  but for \<open>lastUpdated\<close> of a location or an inventory item, which is the current
  time. With the empty payload \<open>r\<close> has the fields of \<open>old\<close>, \<open>lastUpdated\<close>
  refreshed for these two entities. No other record and no counter changes.
\<close>

theorem update_merges_supplied_fields:
  assumes "get e k s = Some old"
  shows "\<exists>r s'. update e k p now s = (Some r, s')
     \<and> get e k s' = Some r
     \<and> (\<forall>f. fld r f =
          (if refreshes e \<and> f = ''lastUpdated'' then Some (JDate now)
           else case fld p f of Some v \<Rightarrow> Some v | None \<Rightarrow> fld old f))
     \<and> (p = [] \<and> \<not> refreshes e \<longrightarrow> fld r = fld old)
     \<and> (p = [] \<and> refreshes e \<longrightarrow> fld r = fld (old @ [(''lastUpdated'', JDate now)]))
     \<and> (\<forall>e' k'. (e', k') \<noteq> (e, k) \<longrightarrow> get e' k' s' = get e' k' s)
     \<and> (\<forall>e'. counter e' s' = counter e' s)"
proof -
  from update_fields [OF assms, of p now] obtain r where
    r: "fst (update e k p now s) = Some r" and
    f: "\<forall>f. fld r f =
          (if refreshes e \<and> f = ''lastUpdated'' then Some (JDate now)
           else case fld p f of Some v \<Rightarrow> Some v | None \<Rightarrow> fld old f)"
    by blast
  let ?s' = "snd (update e k p now s)"
  have "update e k p now s = (Some r, ?s')"
    using r by (simp add: prod_eq_iff)
  moreover have "get e k ?s' = Some r"
    using r by (simp add: update_get)
  moreover have "p = [] \<and> \<not> refreshes e \<longrightarrow> fld r = fld old"
    using f by (auto simp: fun_eq_iff)
  moreover have "p = [] \<and> refreshes e \<longrightarrow> fld r = fld (old @ [(''lastUpdated'', JDate now)])"
    using f by (auto simp: fun_eq_iff)
  moreover have "\<forall>e' k'. (e', k') \<noteq> (e, k) \<longrightarrow> get e' k' ?s' = get e' k' s"
    using r by (auto simp: update_get)
  moreover have "\<forall>e'. counter e' ?s' = counter e' s"
    by (simp add: update_counter)
  ultimately show ?thesis
    using f by blast
qed

text \<open>
  An instance: the status of the first seeded location is updated at time 5000.
\<close>

theorem update_merges_supplied_fields_witness:
  "get Location (Num 1) seeded_store =
     Some [(''regionId'', JNum 1), (''name'', JStr ''North Ridge Trail''),
           (''status'', JStr ''healthy''),
           (''coordinates'',
            JObj [(''type'', JStr ''Point''),
                  (''coordinates'', JArr [JNum 45.35, JNum (- 122.75)])]),
           (''id'', JNum 1), (''lastUpdated'', JDate 1000)]
   \<and> (\<exists>r s'. update Location (Num 1) [(''status'', JStr ''critical'')] 5000 seeded_store =
                (Some r, s')
        \<and> get Location (Num 1) s' = Some r
        \<and> fld r ''status'' = Some (JStr ''critical'')
        \<and> fld r ''name'' = Some (JStr ''North Ridge Trail'')
        \<and> fld r ''regionId'' = Some (JNum 1)
        \<and> fld r ''id'' = Some (JNum 1)
        \<and> fld r ''lastUpdated'' = Some (JDate 5000)
        \<and> get Location (Num 2) s' = get Location (Num 2) seeded_store)"
proof -
  let ?old = "[(''regionId'', JNum 1), (''name'', JStr ''North Ridge Trail''),
           (''status'', JStr ''healthy''),
           (''coordinates'',
            JObj [(''type'', JStr ''Point''),
                  (''coordinates'', JArr [JNum 45.35, JNum (- 122.75)])]),
           (''id'', JNum 1), (''lastUpdated'', JDate 1000)]"
  have g: "get Location (Num 1) seeded_store = Some ?old"
    by (simp add: getLocation_def map_get_def seeded_locations)
  from update_merges_supplied_fields [OF g, of "[(''status'', JStr ''critical'')]" 5000]
  obtain r s' where
    u: "update Location (Num 1) [(''status'', JStr ''critical'')] 5000 seeded_store = (Some r, s')"
    and s: "get Location (Num 1) s' = Some r"
    and f: "\<forall>f. fld r f =
          (if refreshes Location \<and> f = ''lastUpdated'' then Some (JDate 5000)
           else case fld [(''status'', JStr ''critical'')] f of Some v \<Rightarrow> Some v
                | None \<Rightarrow> fld ?old f)"
    and o: "\<forall>e' k'. (e', k') \<noteq> (Location, Num 1) \<longrightarrow> get e' k' s' = get e' k' seeded_store"
    by blast
  have "fld r ''status'' = Some (JStr ''critical'')"
    "fld r ''name'' = Some (JStr ''North Ridge Trail'')"
    "fld r ''regionId'' = Some (JNum 1)"
    "fld r ''id'' = Some (JNum 1)"
    "fld r ''lastUpdated'' = Some (JDate 5000)"
    by (simp_all add: f fld_Cons)
  moreover have "get Location (Num 2) s' = get Location (Num 2) seeded_store"
    using o [rule_format, of Location "Num 2"] by simp
  ultimately show ?thesis
    using g u s by blast
qed

section \<open>C5: completing a task\<close>

text \<open>
  C5: let \<open>k\<close> be the id parsed from the path segment. If no task has id \<open>k\<close>,
  \<open>completeTask\<close> returns \<open>undefined\<close> and leaves the store as it is, and the handler
  answers 404 with \<open>{error: "Task not found"}\<close>. If a task \<open>t\<close> has id \<open>k\<close>, completed
  already or not, \<open>completeTask\<close> returns \<open>t\<close> with \<open>completed = true\<close>,
  \<open>status = "completed"\<close> and \<open>completedAt\<close> the current time, every other field as
  in \<open>t\<close>; the result is stored under \<open>k\<close>, the other tasks stay, and the handler
  answers 200 with the result.
\<close>

theorem completeTask_sets_completed:
  assumes "parseInt seg = k"
  shows "(getTask k s = None \<longrightarrow>
            completeTask k now s = (None, s)
          \<and> put_tasks_id_complete seg now s =
              (Json 404 (JObj [(''error'', JStr ''Task not found'')]), s))
     \<and> (\<forall>t. getTask k s = Some t \<longrightarrow>
          (\<exists>r s'. completeTask k now s = (Some r, s')
             \<and> put_tasks_id_complete seg now s = (Json 200 (JObj r), s')
             \<and> fld r ''completed'' = Some (JBool True)
             \<and> fld r ''status'' = Some (JStr ''completed'')
             \<and> fld r ''completedAt'' = Some (JDate now)
             \<and> (\<forall>f. f \<notin> {''completed'', ''status'', ''completedAt''} \<longrightarrow> fld r f = fld t f)
             \<and> getTask k s' = Some r
             \<and> (\<forall>k'. k' \<noteq> k \<longrightarrow> getTask k' s' = getTask k' s)))"
proof (intro conjI impI allI)
  assume "getTask k s = None"
  then show "completeTask k now s = (None, s)"
    by (rule complete_absent)
  then show "put_tasks_id_complete seg now s =
              (Json 404 (JObj [(''error'', JStr ''Task not found'')]), s)"
    using assms by (simp add: put_tasks_id_complete_def error_body_def)
next
  fix t
  assume t: "getTask k s = Some t"
  let ?r = "object_of (t @ [(''completed'', JBool True), (''status'', JStr ''completed''),
                            (''completedAt'', JDate now)])"
  let ?s' = "s\<lparr>tasks := map_set k ?r (tasks s)\<rparr>"
  have c: "completeTask k now s = (Some ?r, ?s')"
    using t by (rule complete_present)
  moreover have "put_tasks_id_complete seg now s = (Json 200 (JObj ?r), ?s')"
    using assms c by (simp add: put_tasks_id_complete_def)
  moreover have "fld ?r ''completed'' = Some (JBool True)"
    "fld ?r ''status'' = Some (JStr ''completed'')"
    "fld ?r ''completedAt'' = Some (JDate now)"
    by (simp_all add: fld_append fld_Cons)
  moreover have "\<forall>f. f \<notin> {''completed'', ''status'', ''completedAt''} \<longrightarrow> fld ?r f = fld t f"
    by (simp add: fld_append fld_Cons)
  moreover have "getTask k ?s' = Some ?r"
    by (simp add: getTask_def)
  moreover have "\<forall>k'. k' \<noteq> k \<longrightarrow> getTask k' ?s' = getTask k' s"
    by (simp add: getTask_def)
  ultimately show "\<exists>r s'. completeTask k now s = (Some r, s')
             \<and> put_tasks_id_complete seg now s = (Json 200 (JObj r), s')
             \<and> fld r ''completed'' = Some (JBool True)
             \<and> fld r ''status'' = Some (JStr ''completed'')
             \<and> fld r ''completedAt'' = Some (JDate now)
             \<and> (\<forall>f. f \<notin> {''completed'', ''status'', ''completedAt''} \<longrightarrow> fld r f = fld t f)
             \<and> getTask k s' = Some r
             \<and> (\<forall>k'. k' \<noteq> k \<longrightarrow> getTask k' s' = getTask k' s)"
    by blast
qed

text \<open>
  An instance on the seeded store: task 999 does not exist; task 1 is completed at time
  5000 and once more at time 6000, which moves \<open>completedAt\<close>.
\<close>

theorem completeTask_sets_completed_witness:
  "parseInt ''999'' = Num 999
   \<and> getTask (Num 999) seeded_store = None
   \<and> put_tasks_id_complete ''999'' 5000 seeded_store =
       (Json 404 (JObj [(''error'', JStr ''Task not found'')]), seeded_store)
   \<and> (\<exists>r s'. put_tasks_id_complete ''1'' 5000 seeded_store = (Json 200 (JObj r), s')
         \<and> fld r ''completed'' = Some (JBool True)
         \<and> fld r ''status'' = Some (JStr ''completed'')
         \<and> fld r ''completedAt'' = Some (JDate 5000)
         \<and> fld r ''title'' = Some (JStr ''Weekly tree health inspection'')
         \<and> (\<exists>r2 s2. put_tasks_id_complete ''1'' 6000 s' = (Json 200 (JObj r2), s2)
               \<and> fld r2 ''completed'' = Some (JBool True)
               \<and> fld r2 ''completedAt'' = Some (JDate 6000)))"
proof -
  note th = completeTask_sets_completed
  have n: "getTask (Num 999) seeded_store = None"
    by (simp add: getTask_def map_get_def seeded_tasks)
  have a: "put_tasks_id_complete ''999'' 5000 seeded_store =
       (Json 404 (JObj [(''error'', JStr ''Task not found'')]), seeded_store)"
    using th [OF parseInt_999, of seeded_store 5000, THEN conjunct1, rule_format, OF n]
    by (rule conjunct2)
  define t where "t = the (getTask (Num 1) seeded_store)"
  have t: "getTask (Num 1) seeded_store = Some t"
    by (simp add: t_def getTask_def map_get_def seeded_tasks)
  have tt: "fld t ''title'' = Some (JStr ''Weekly tree health inspection'')"
    by (simp add: t_def getTask_def map_get_def seeded_tasks fld_Cons)
  from th [OF parseInt_1, of seeded_store 5000, THEN conjunct2, rule_format, OF t]
  obtain r s' where r1: "put_tasks_id_complete ''1'' 5000 seeded_store = (Json 200 (JObj r), s')"
    and r2: "fld r ''completed'' = Some (JBool True)"
    and r3: "fld r ''status'' = Some (JStr ''completed'')"
    and r4: "fld r ''completedAt'' = Some (JDate 5000)"
    and r5: "\<forall>f. f \<notin> {''completed'', ''status'', ''completedAt''} \<longrightarrow> fld r f = fld t f"
    and r6: "getTask (Num 1) s' = Some r"
    by (elim exE conjE)
  have rt: "fld r ''title'' = Some (JStr ''Weekly tree health inspection'')"
    using r5 [rule_format, of "''title''"] tt by simp
  from th [OF parseInt_1, of s' 6000, THEN conjunct2, rule_format, OF r6]
  obtain r' s2 where q1: "put_tasks_id_complete ''1'' 6000 s' = (Json 200 (JObj r'), s2)"
    and q2: "fld r' ''completed'' = Some (JBool True)"
    and q3: "fld r' ''completedAt'' = Some (JDate 6000)"
    by (elim exE conjE)
  have inner: "\<exists>r2 s2. put_tasks_id_complete ''1'' 6000 s' = (Json 200 (JObj r2), s2)
               \<and> fld r2 ''completed'' = Some (JBool True)
               \<and> fld r2 ''completedAt'' = Some (JDate 6000)"
    using q1 q2 q3 by (intro exI [of _ r'] exI [of _ s2]) simp
  have outer: "\<exists>r s'. put_tasks_id_complete ''1'' 5000 seeded_store = (Json 200 (JObj r), s')
         \<and> fld r ''completed'' = Some (JBool True)
         \<and> fld r ''status'' = Some (JStr ''completed'')
         \<and> fld r ''completedAt'' = Some (JDate 5000)
         \<and> fld r ''title'' = Some (JStr ''Weekly tree health inspection'')
         \<and> (\<exists>r2 s2. put_tasks_id_complete ''1'' 6000 s' = (Json 200 (JObj r2), s2)
               \<and> fld r2 ''completed'' = Some (JBool True)
               \<and> fld r2 ''completedAt'' = Some (JDate 6000))"
    using r1 r2 r3 r4 rt inner by (intro exI [of _ r] exI [of _ s']) simp
  show ?thesis
    using parseInt_999 n a outer by simp
qed

section \<open>C6: completed and completedAt are set by complete only\<close>

text \<open>
  C6, in five parts.
  \<^item> \<open>createTask\<close> returns a record with \<open>completed = false\<close> and
    \<open>completedAt = null\<close>, whatever the payload \<open>p\<close> holds.
  \<^item> What \<open>insertTaskSchema\<close> or its partial form parses from a body has neither
    \<open>completed\<close> nor \<open>completedAt\<close>.
  \<^item> After POST /api/tasks with any body, a task of the store is a task that was there
    before, unchanged, or has \<open>completed = false\<close> and \<open>completedAt = null\<close>.
  \<^item> After PUT /api/tasks/:id with any segment and body, every task of the store was
    there before with the same \<open>completed\<close> and \<open>completedAt\<close>.
  \<^item> \<open>updateTask\<close> with a payload \<open>q\<close> of the partial insert type (no \<open>completed\<close>,
    no \<open>completedAt\<close>) leaves both fields of every task as they were.
\<close>

theorem completed_set_only_by_complete:
  "fld (fst (createTask p s)) ''completed'' = Some (JBool False)
   \<and> fld (fst (createTask p s)) ''completedAt'' = Some JNull
   \<and> (parse insertTaskSchema body = Inr d \<or> parse (partial insertTaskSchema) body = Inr d
        \<longrightarrow> fld d ''completed'' = None \<and> fld d ''completedAt'' = None)
   \<and> (\<forall>k r. getTask k (snd (post_tasks body s)) = Some r \<longrightarrow>
          getTask k s = Some r
          \<or> (fld r ''completed'' = Some (JBool False) \<and> fld r ''completedAt'' = Some JNull))
   \<and> (\<forall>k r'. getTask k (snd (put_tasks_id seg body s)) = Some r' \<longrightarrow>
          (\<exists>r. getTask k s = Some r \<and> fld r' ''completed'' = fld r ''completed''
                \<and> fld r' ''completedAt'' = fld r ''completedAt''))
   \<and> (fld q ''completed'' = None \<and> fld q ''completedAt'' = None \<longrightarrow>
        (\<forall>k r'. getTask k (snd (updateTask k0 q s)) = Some r' \<longrightarrow>
          (\<exists>r. getTask k s = Some r \<and> fld r' ''completed'' = fld r ''completed''
                \<and> fld r' ''completedAt'' = fld r ''completedAt'')))"
proof (intro conjI)
  show "fld (fst (createTask p s)) ''completed'' = Some (JBool False)"
    and "fld (fst (createTask p s)) ''completedAt'' = Some JNull"
    by (rule createTask_fields)+
  show "parse insertTaskSchema body = Inr d \<or> parse (partial insertTaskSchema) body = Inr d
        \<longrightarrow> fld d ''completed'' = None \<and> fld d ''completedAt'' = None"
    using parsed_task_excludes [of body d] by (intro impI conjI)
  show "\<forall>k r. getTask k (snd (post_tasks body s)) = Some r \<longrightarrow>
          getTask k s = Some r
          \<or> (fld r ''completed'' = Some (JBool False) \<and> fld r ''completedAt'' = Some JNull)"
  proof (cases "parse insertTaskSchema body")
    case (Inl issues)
    then show ?thesis by (simp add: post_tasks_result)
  next
    case (Inr x)
    then show ?thesis
      by (simp add: post_tasks_result createTask_get createTask_fields)
  qed
  show "\<forall>k r'. getTask k (snd (put_tasks_id seg body s)) = Some r' \<longrightarrow>
          (\<exists>r. getTask k s = Some r \<and> fld r' ''completed'' = fld r ''completed''
                \<and> fld r' ''completedAt'' = fld r ''completedAt'')"
  proof (intro allI impI)
    fix k r'
    assume g: "getTask k (snd (put_tasks_id seg body s)) = Some r'"
    show "\<exists>r. getTask k s = Some r \<and> fld r' ''completed'' = fld r ''completed''
                \<and> fld r' ''completedAt'' = fld r ''completedAt''"
    proof (cases "parse (partial insertTaskSchema) body")
      case (Inl issues)
      then show ?thesis using g by (simp add: put_tasks_id_store)
    next
      case (Inr x)
      then have "fld x ''completed'' = None" "fld x ''completedAt'' = None"
        using parsed_task_excludes [of body x] by simp_all
      moreover have "getTask k (snd (updateTask (parseInt seg) x s)) = Some r'"
        using g Inr by (simp add: put_tasks_id_store)
      ultimately show ?thesis by (rule updateTask_keeps)
    qed
  qed
  show "fld q ''completed'' = None \<and> fld q ''completedAt'' = None \<longrightarrow>
        (\<forall>k r'. getTask k (snd (updateTask k0 q s)) = Some r' \<longrightarrow>
          (\<exists>r. getTask k s = Some r \<and> fld r' ''completed'' = fld r ''completed''
                \<and> fld r' ''completedAt'' = fld r ''completedAt''))"
    using updateTask_keeps [of q _ k0 s] by (intro impI allI) simp
qed

text \<open>
  An instance on the seeded store: a POST and a PUT whose bodies carry
  \<open>completed: true\<close> and a \<open>completedAt\<close>; parsing drops both, the created task 4 and
  the updated task 1 are not completed.
\<close>

theorem completed_set_only_by_complete_witness:
  "parse insertTaskSchema
     (JObj [(''title'', JStr ''Survey''), (''location'', JStr ''North Region''),
            (''category'', JStr ''routine''), (''scheduledDate'', JDate 9000),
            (''completed'', JBool True), (''completedAt'', JDate 5)]) =
   Inr [(''title'', JStr ''Survey''), (''location'', JStr ''North Region''),
        (''category'', JStr ''routine''), (''scheduledDate'', JDate 9000)]
   \<and> (\<exists>r. getTask (Num 4)
          (snd (post_tasks
            (JObj [(''title'', JStr ''Survey''), (''location'', JStr ''North Region''),
                   (''category'', JStr ''routine''), (''scheduledDate'', JDate 9000),
                   (''completed'', JBool True), (''completedAt'', JDate 5)])
            seeded_store)) = Some r
        \<and> fld r ''title'' = Some (JStr ''Survey'')
        \<and> fld r ''completed'' = Some (JBool False)
        \<and> fld r ''completedAt'' = Some JNull)
   \<and> parse (partial insertTaskSchema)
       (JObj [(''status'', JStr ''cancelled''), (''completed'', JBool True),
              (''completedAt'', JDate 5)]) =
     Inr [(''status'', JStr ''cancelled'')]
   \<and> (\<exists>r'. getTask (Num 1)
          (snd (put_tasks_id ''1''
            (JObj [(''status'', JStr ''cancelled''), (''completed'', JBool True),
                   (''completedAt'', JDate 5)])
            seeded_store)) = Some r'
        \<and> fld r' ''status'' = Some (JStr ''cancelled'')
        \<and> fld r' ''completed'' = Some (JBool False)
        \<and> fld r' ''completedAt'' = Some JNull)"
proof -
  let ?b1 = "JObj [(''title'', JStr ''Survey''), (''location'', JStr ''North Region''),
            (''category'', JStr ''routine''), (''scheduledDate'', JDate 9000),
            (''completed'', JBool True), (''completedAt'', JDate 5)]"
  let ?d1 = "[(''title'', JStr ''Survey''), (''location'', JStr ''North Region''),
        (''category'', JStr ''routine''), (''scheduledDate'', JDate 9000)]"
  let ?b2 = "JObj [(''status'', JStr ''cancelled''), (''completed'', JBool True),
              (''completedAt'', JDate 5)]"
  let ?d2 = "[(''status'', JStr ''cancelled'')]"
  note th1 = completed_set_only_by_complete [of ?d1 seeded_store ?b1 ?d1 "''1''" ?d2 "Num 1"]
  note th2 = completed_set_only_by_complete [of ?d1 seeded_store ?b2 ?d2 "''1''" ?d2 "Num 1"]
  define r where "r = fst (createTask ?d1 seeded_store)"
  have g1: "getTask (Num 4) (snd (post_tasks ?b1 seeded_store)) = Some r"
    by (simp add: post_tasks_result parse_task_body createTask_get seeded_counters r_def)
  have r1: "fld r ''completed'' = Some (JBool False)" "fld r ''completedAt'' = Some JNull"
    using th1 by (simp_all add: r_def)
  have r2: "fld r ''title'' = Some (JStr ''Survey'')"
    by (simp add: r_def createTask_def Let_def fld_append fld_Cons)
  define r' where "r' = the (getTask (Num 1) (snd (put_tasks_id ''1'' ?b2 seeded_store)))"
  have g2: "getTask (Num 1) (snd (put_tasks_id ''1'' ?b2 seeded_store)) = Some r'"
    by (simp add: r'_def put_tasks_id_store parse_task_partial_body parseInt_1 updateTask_get
        seeded_task_1)
  have s2: "fld r' ''status'' = Some (JStr ''cancelled'')"
    by (simp add: r'_def put_tasks_id_store parse_task_partial_body parseInt_1 updateTask_get
        seeded_task_1 fld_append fld_Cons)
  from th2 [THEN conjunct2, THEN conjunct2, THEN conjunct2, THEN conjunct2, THEN conjunct1,
      rule_format, OF g2]
  obtain t where t: "getTask (Num 1) seeded_store = Some t"
    and c: "fld r' ''completed'' = fld t ''completed''"
      "fld r' ''completedAt'' = fld t ''completedAt''"
    by (elim exE conjE)
  have "fld t ''completed'' = Some (JBool False)" "fld t ''completedAt'' = Some JNull"
    using t by (auto simp: seeded_task_1 fld_Cons)
  with c have c': "fld r' ''completed'' = Some (JBool False)" "fld r' ''completedAt'' = Some JNull"
    by simp_all
  have e1: "\<exists>r. getTask (Num 4) (snd (post_tasks ?b1 seeded_store)) = Some r
        \<and> fld r ''title'' = Some (JStr ''Survey'')
        \<and> fld r ''completed'' = Some (JBool False)
        \<and> fld r ''completedAt'' = Some JNull"
    using g1 r1 r2 by (intro exI [of _ r]) simp
  have e2: "\<exists>r'. getTask (Num 1) (snd (put_tasks_id ''1'' ?b2 seeded_store)) = Some r'
        \<and> fld r' ''status'' = Some (JStr ''cancelled'')
        \<and> fld r' ''completed'' = Some (JBool False)
        \<and> fld r' ''completedAt'' = Some JNull"
    using g2 s2 c' by (intro exI [of _ r']) simp
  show ?thesis
    using parse_task_body parse_task_partial_body e1 e2 by (intro conjI)
qed

section \<open>C9: a path id that does not parse\<close>

text \<open>
  C9: let the path segment parse to \<open>NaN\<close>, in a store whose keys are numbers (every
  store the constructor and the methods produce). Then for every entity the get and the
  delete endpoint answer 404 with the entity's not-found message, and so does the
  complete endpoint of tasks. The update endpoint validates the body before it looks the
  id up: it answers 404 when the body passes validation of the partial insert schema
  and the 400 of the validation error when it does not. In each case the store is
  unchanged, nothing is thrown, and the answer is the one the endpoint gives for a
  segment that parses to an id without a record: there is no answer of its own for an
  id that does not parse.
\<close>

theorem unparsable_id_is_not_found:
  assumes nan: "parseInt seg = NaN" and keys: "keys_numeric s"
  shows "get_by_id e seg s = (Json 404 (JObj [(''error'', JStr (not_found e))]), s)
     \<and> delete_by_id e seg s = (Json 404 (JObj [(''error'', JStr (not_found e))]), s)
     \<and> put_tasks_id_complete seg now s =
         (Json 404 (JObj [(''error'', JStr ''Task not found'')]), s)
     \<and> (\<forall>d. parse (partial (insertSchema e)) body = Inr d \<longrightarrow>
           put_by_id e seg body now s =
             (Json 404 (JObj [(''error'', JStr (not_found e))]), s))
     \<and> (\<forall>issues. parse (partial (insertSchema e)) body = Inl issues \<longrightarrow>
           put_by_id e seg body now s =
             (Json 400 (JObj [(''error'', JStr (fromZodError issues))]), s))
     \<and> (\<forall>seg'. get e (parseInt seg') s = None \<longrightarrow>
           get_by_id e seg' s = get_by_id e seg s
         \<and> delete_by_id e seg' s = delete_by_id e seg s
         \<and> put_by_id e seg' body now s = put_by_id e seg body now s)
     \<and> (\<forall>seg'. getTask (parseInt seg') s = None \<longrightarrow>
           put_tasks_id_complete seg' now s = put_tasks_id_complete seg now s)"
proof -
  have a: "get e (parseInt seg) s = None" for e
    using nan keys by (simp add: keys_numeric_get)
  then have t: "getTask (parseInt seg) s = None"
    using a [of Task] by simp
  show ?thesis
    using a t
    by (simp add: get_by_id_absent delete_by_id_absent put_by_id_absent complete_by_id_absent)
qed

text \<open>
  An instance on the seeded store, with the segments \<open>abc\<close> (not a number) and \<open>999\<close>
  (a number, no such user).
\<close>

theorem unparsable_id_is_not_found_witness:
  "parseInt ''abc'' = NaN
   \<and> keys_numeric seeded_store
   \<and> get_users_id ''abc'' seeded_store =
       (Json 404 (JObj [(''error'', JStr ''User not found'')]), seeded_store)
   \<and> delete_users_id ''abc'' seeded_store =
       (Json 404 (JObj [(''error'', JStr ''User not found'')]), seeded_store)
   \<and> put_tasks_id_complete ''abc'' 5000 seeded_store =
       (Json 404 (JObj [(''error'', JStr ''Task not found'')]), seeded_store)
   \<and> put_users_id ''abc'' (JObj [(''role'', JStr ''manager'')]) seeded_store =
       (Json 404 (JObj [(''error'', JStr ''User not found'')]), seeded_store)
   \<and> get_users_id ''999'' seeded_store = get_users_id ''abc'' seeded_store
   \<and> delete_users_id ''999'' seeded_store = delete_users_id ''abc'' seeded_store
   \<and> put_users_id ''999'' (JObj [(''role'', JStr ''manager'')]) seeded_store =
       put_users_id ''abc'' (JObj [(''role'', JStr ''manager'')]) seeded_store"
  using unparsable_id_is_not_found
    [OF parseInt_abc keys_numeric_seeded, of User 5000 "JObj [(''role'', JStr ''manager'')]"]
  by (simp add: parseInt_abc keys_numeric_seeded parse_role_only parseInt_999 seeded_user_999)

section \<open>C10: GET /api/locations with a regionId that is 0 or not a number\<close>

text \<open>
  C10: when the \<open>regionId\<close> query parameter parses to \<open>NaN\<close> or to 0, the handler
  answers with all locations, as it does without the parameter: it calls
  \<open>getLocationsByRegion\<close> only when the parsed number is truthy.
\<close>

theorem get_locations_falsy_regionId:
  assumes "parseInt str = NaN \<or> parseInt str = Num 0"
  shows "get_locations (Some str) s = (Json 200 (JArr (map JObj (getLocations s))), s)
     \<and> get_locations (Some str) s = get_locations None s"
  using assms by (auto simp: get_locations_def)

text \<open>
  An instance on the seeded store: \<open>regionId=0\<close> and \<open>regionId=abc\<close> give the three
  seeded locations, where filtering by region 0 or \<open>NaN\<close> would give none;
  \<open>regionId=2\<close> gives the one location of region 2.
\<close>

theorem get_locations_falsy_regionId_witness:
  "parseInt ''0'' = Num 0
   \<and> parseInt ''abc'' = NaN
   \<and> get_locations (Some ''0'') seeded_store =
       (Json 200 (JArr (map JObj (getLocations seeded_store))), seeded_store)
   \<and> get_locations (Some ''abc'') seeded_store =
       (Json 200 (JArr (map JObj (getLocations seeded_store))), seeded_store)
   \<and> length (getLocations seeded_store) = 3
   \<and> getLocationsByRegion (Num 0) seeded_store = []
   \<and> getLocationsByRegion NaN seeded_store = []
   \<and> get_locations (Some ''2'') seeded_store =
       (Json 200 (JArr (map JObj (getLocationsByRegion (Num 2) seeded_store))), seeded_store)
   \<and> length (getLocationsByRegion (Num 2) seeded_store) = 1"
  using get_locations_falsy_regionId [of "''0''" seeded_store]
    get_locations_falsy_regionId [of "''abc''" seeded_store]
  by (simp add: parseInt_0 parseInt_abc parseInt_2 getLocations_def getLocationsByRegion_def
      map_values_def seeded_locations fld_Cons get_locations_def)

section \<open>C3: upcoming tasks\<close>

text \<open>
  C3 says that for every limit \<open>getUpcomingTasks(limit)\<close> returns at most \<open>limit\<close>
  tasks. The method ends with \<open>slice(0, limit)\<close>, which for a negative limit drops
  that many tasks from the end instead: on the seeded store at time 2000, where all
  three tasks are upcoming, limit \<open>-1\<close> (GET /api/tasks?limit=-1) returns two tasks.
\<close>

theorem upcoming_tasks_negative_limit:
  "map (\<lambda>t. fld t ''id'') (getUpcomingTasks (Num (- 1)) 2000 seeded_store) =
     [Some (JNum 1), Some (JNum 2)]
   \<and> length (getUpcomingTasks (Num (- 1)) 2000 seeded_store) = 2
   \<and> \<not> int (length (getUpcomingTasks (Num (- 1)) 2000 seeded_store)) \<le> - 1"
proof -
  have "length (getUpcomingTasks (Num (- 1)) 2000 seeded_store) = 2"
    using arg_cong [OF seeded_upcoming_all_but_last, of length] by simp
  then show ?thesis
    using seeded_upcoming_all_but_last by simp
qed

text \<open>
  C3 as amended: in a store whose tasks have a boolean \<open>completed\<close> and a Date
  \<open>scheduledDate\<close> (what the type \<open>Task\<close> says), for every time and every limit,
  every task returned is a task of the store with \<open>completed = false\<close> and a
  \<open>scheduledDate\<close> after the current time, and the tasks are returned in ascending
  order of \<open>scheduledDate\<close>; for a limit \<open>n \<ge> 0\<close> at most \<open>n\<close> tasks are returned.
\<close>

theorem upcoming_tasks_filtered_sorted_limited:
  assumes "tasks_typed s"
  shows "(\<forall>t \<in> set (getUpcomingTasks limit now s).
            t \<in> set (getTasks s)
          \<and> fld t ''completed'' = Some (JBool False)
          \<and> (\<exists>d. fld t ''scheduledDate'' = Some (JDate d) \<and> now < d))
     \<and> sorted (map (\<lambda>t. getTime (fld t ''scheduledDate'')) (getUpcomingTasks limit now s))
     \<and> (\<forall>n. limit = Num n \<and> 0 \<le> n \<longrightarrow> length (getUpcomingTasks limit now s) \<le> nat n)"
proof (intro conjI ballI allI impI)
  fix t
  assume "t \<in> set (getUpcomingTasks limit now s)"
  then have "t \<in> set (sort_key (\<lambda>a. getTime (fld a ''scheduledDate''))
          (filter (\<lambda>task. \<not> truthy (fld task ''completed'')
                         \<and> getTime (fld task ''scheduledDate'') > now)
             (map_values (tasks s))))"
    unfolding getUpcomingTasks_def by (rule subsetD [OF set_slice0])
  then have m: "t \<in> set (getTasks s)"
    and c: "\<not> truthy (fld t ''completed'')"
    and d: "now < getTime (fld t ''scheduledDate'')"
    by (simp_all add: getTasks_def)
  from m assms have b: "is_bool (fld t ''completed'')" and dt: "is_date (fld t ''scheduledDate'')"
    by (simp_all add: tasks_typed_def list_all_iff)
  show "t \<in> set (getTasks s)" by (rule m)
  show "fld t ''completed'' = Some (JBool False)"
    using b c by (rule falsy_bool)
  show "\<exists>d. fld t ''scheduledDate'' = Some (JDate d) \<and> now < d"
    using date_value [OF dt] d by (intro exI [of _ "getTime (fld t ''scheduledDate'')"]) simp
next
  show "sorted (map (\<lambda>t. getTime (fld t ''scheduledDate'')) (getUpcomingTasks limit now s))"
    unfolding getUpcomingTasks_def by (rule sorted_slice0) simp
next
  fix n
  assume "limit = Num n \<and> 0 \<le> n"
  then show "length (getUpcomingTasks limit now s) \<le> nat n"
    by (simp add: getUpcomingTasks_def)
qed


text \<open>
  An instance on the seeded store, at a time after the first task's date, with limit 1.
\<close>

theorem upcoming_tasks_filtered_sorted_limited_witness:
  "tasks_typed seeded_store
   \<and> map (\<lambda>t. fld t ''id'') (getUpcomingTasks (Num 1) 500000000 seeded_store) =
       [Some (JNum 2)]
   \<and> sorted (map (\<lambda>t. getTime (fld t ''scheduledDate''))
        (getUpcomingTasks (Num 1) 500000000 seeded_store))
   \<and> length (getUpcomingTasks (Num 1) 500000000 seeded_store) \<le> 1"
proof -
  note th = upcoming_tasks_filtered_sorted_limited [OF seeded_tasks_typed, of "Num 1" 500000000]
  have "sorted (map (\<lambda>t. getTime (fld t ''scheduledDate''))
        (getUpcomingTasks (Num 1) 500000000 seeded_store))"
    using th by (rule conjunct2 [THEN conjunct1])
  moreover have "length (getUpcomingTasks (Num 1) 500000000 seeded_store) \<le> 1"
    using th [THEN conjunct2, THEN conjunct2, rule_format, of 1] by simp
  ultimately show ?thesis
    using seeded_tasks_typed seeded_upcoming_later by simp
qed

section \<open>C4: the latest metric of each category\<close>

text \<open>
  C4: in a store whose metrics have a Date \<open>timestamp\<close> (what the type \<open>Metric\<close>
  says), the categories of the metrics \<open>getLatestMetrics\<close> returns form a subsequence
  of coverage, species, risk, health: at most one metric per category, in the order of
  the fixed list, none of another category. Every metric returned is a metric of the
  store whose timestamp is the greatest among the metrics of its category. A category
  of the fixed list has a metric in the result exactly when it has one in the store.
\<close>

theorem latest_metrics_one_per_category:
  assumes typed: "metrics_typed s"
  shows "subseq (map (\<lambda>m. fld m ''category'') (getLatestMetrics s))
           [Some (JStr ''coverage''), Some (JStr ''species''), Some (JStr ''risk''),
            Some (JStr ''health'')]
     \<and> distinct (map (\<lambda>m. fld m ''category'') (getLatestMetrics s))
     \<and> (\<forall>m \<in> set (getLatestMetrics s).
           m \<in> set (getMetrics s)
         \<and> (\<exists>t. fld m ''timestamp'' = Some (JDate t)
               \<and> (\<forall>m' \<in> set (getMetrics s).
                     fld m' ''category'' = fld m ''category'' \<longrightarrow>
                     (\<exists>t'. fld m' ''timestamp'' = Some (JDate t') \<and> t' \<le> t))))
     \<and> (\<forall>c \<in> set [''coverage'', ''species'', ''risk'', ''health''].
           (\<exists>m \<in> set (getMetrics s). fld m ''category'' = Some (JStr c)) =
           (\<exists>m \<in> set (getLatestMetrics s). fld m ''category'' = Some (JStr c)))"
proof -
  let ?cat = "\<lambda>m. fld m ''category''"
  let ?key = "\<lambda>a. - getTime (fld a ''timestamp'')"
  let ?S = "\<lambda>c. sort_key ?key (filter (\<lambda>metric. ?cat metric = Some (JStr c))
                                 (map_values (metrics s)))"
  have dates: "fld m ''timestamp'' = Some (JDate (getTime (fld m ''timestamp'')))"
    if "m \<in> set (getMetrics s)" for m
    using typed that by (intro date_value) (simp add: metrics_typed_def list_all_iff)
  have "subseq (map ?cat (concat (map (\<lambda>c. take 1 (?S c)) categories)))
          (map (\<lambda>c. Some (JStr c)) categories)"
    by (rule subseq_firsts) simp
  then have a: "subseq (map ?cat (getLatestMetrics s))
           [Some (JStr ''coverage''), Some (JStr ''species''), Some (JStr ''risk''),
            Some (JStr ''health'')]"
    by (simp add: getLatestMetrics_concat categories_def)
  have b: "distinct (map ?cat (getLatestMetrics s))"
    using a by (rule subseq_distinct) simp
  have c: "\<forall>m \<in> set (getLatestMetrics s).
           m \<in> set (getMetrics s)
         \<and> (\<exists>t. fld m ''timestamp'' = Some (JDate t)
               \<and> (\<forall>m' \<in> set (getMetrics s).
                     ?cat m' = ?cat m \<longrightarrow>
                     (\<exists>t'. fld m' ''timestamp'' = Some (JDate t') \<and> t' \<le> t)))"
  proof
    fix m
    assume "m \<in> set (getLatestMetrics s)"
    then obtain c ms where S: "?S c = m # ms"
      by (rule latest_member)
    then have "m \<in> set (?S c)" by simp
    then have m: "m \<in> set (getMetrics s)" and mc: "?cat m = Some (JStr c)"
      by (simp_all add: getMetrics_def)
    have le: "getTime (fld m' ''timestamp'') \<le> getTime (fld m ''timestamp'')"
      if "m' \<in> set (getMetrics s)" "?cat m' = ?cat m" for m'
    proof -
      have "m' \<in> set (filter (\<lambda>metric. ?cat metric = Some (JStr c)) (map_values (metrics s)))"
        using that mc by (simp add: getMetrics_def)
      from sorted_key_head [OF S this] show ?thesis by simp
    qed
    have "\<forall>m' \<in> set (getMetrics s). ?cat m' = ?cat m \<longrightarrow>
            (\<exists>t'. fld m' ''timestamp'' = Some (JDate t')
                  \<and> t' \<le> getTime (fld m ''timestamp''))"
      using dates le by blast
    then show "m \<in> set (getMetrics s)
         \<and> (\<exists>t. fld m ''timestamp'' = Some (JDate t)
               \<and> (\<forall>m' \<in> set (getMetrics s).
                     ?cat m' = ?cat m \<longrightarrow>
                     (\<exists>t'. fld m' ''timestamp'' = Some (JDate t') \<and> t' \<le> t)))"
      using m dates [OF m] by blast
  qed
  have d: "\<forall>c \<in> set [''coverage'', ''species'', ''risk'', ''health''].
           (\<exists>m \<in> set (getMetrics s). ?cat m = Some (JStr c)) =
           (\<exists>m \<in> set (getLatestMetrics s). ?cat m = Some (JStr c))"
  proof
    fix c
    assume "c \<in> set [''coverage'', ''species'', ''risk'', ''health'']"
    then have cc: "c \<in> set categories" by (simp add: categories_def)
    show "(\<exists>m \<in> set (getMetrics s). ?cat m = Some (JStr c)) =
           (\<exists>m \<in> set (getLatestMetrics s). ?cat m = Some (JStr c))"
      using latest_present [OF cc] c by blast
  qed
  from a b c d show ?thesis by (intro conjI)
qed

text \<open>
  An instance: the seeded store with a metric of category soil and a second, later health
  metric (ids 5 and 6). The result holds metrics 1, 2, 3 and 6: the later health metric,
  and no soil metric.
\<close>

theorem latest_metrics_one_per_category_witness:
  "metrics_typed metrics_store
   \<and> map (\<lambda>m. fld m ''id'') (getLatestMetrics metrics_store) =
       [Some (JNum 1), Some (JNum 2), Some (JNum 3), Some (JNum 6)]
   \<and> subseq (map (\<lambda>m. fld m ''category'') (getLatestMetrics metrics_store))
        [Some (JStr ''coverage''), Some (JStr ''species''), Some (JStr ''risk''),
         Some (JStr ''health'')]
   \<and> distinct (map (\<lambda>m. fld m ''category'') (getLatestMetrics metrics_store))"
  using latest_metrics_one_per_category [OF metrics_store_typed]
    metrics_store_typed metrics_store_latest
  by simp

end
